theory Spec2Isabelle
  imports Complex_Main "HOL-Library.Word"
begin

section \<open>Shared runtime notions\<close>

text \<open>
  The program is a browser application written in TypeScript. Exceptions of the runtime are
  values of \<open>js_error\<close>; a computation that may raise returns \<open>js_error + 'a\<close>, with
  \<open>Inl\<close> for the raised error. A value that may be \<open>undefined\<close> is an \<open>option\<close>.

  Strings are lists of bytes. The few non-ASCII letters of the user-visible messages are
  written as their UTF-8 bytes (the encoding of the source files).
\<close>

datatype js_error =
    Error string
  | TypeError
  | RangeError
  | SyntaxError
  | QuotaExceededError

definition a_tilde :: string where
  "a_tilde = [CHR 0xC3, CHR 0xA3]"

definition a_circumflex :: string where
  "a_circumflex = [CHR 0xC3, CHR 0xA2]"

definition i_acute :: string where
  "i_acute = [CHR 0xC3, CHR 0xAD]"

text \<open>\<open>String.prototype.startsWith\<close>.\<close>

definition startsWith :: "string \<Rightarrow> string \<Rightarrow> bool" where
  "startsWith s p = (take (length p) s = p)"

text \<open>
  A string or \<open>undefined\<close> in a boolean position: \<open>undefined\<close> and the empty string
  are falsy.
\<close>

fun truthy :: "string option \<Rightarrow> bool" where
  "truthy None = False"
| "truthy (Some s) = (s \<noteq> [])"

text \<open>\<open>a || b\<close> on such values.\<close>

definition js_or :: "string option \<Rightarrow> string option \<Rightarrow> string option" where
  "js_or a b = (if truthy a then a else b)"

text \<open>
  Decimal text of a number, as a template literal prints an integer.
\<close>

definition digit_char :: "nat \<Rightarrow> char" where
  "digit_char d = ''0123456789'' ! d"

function dec :: "nat \<Rightarrow> string" where
  "dec n = (if n < 10 then [digit_char n] else dec (n div 10) @ [digit_char (n mod 10)])"
  by pat_completeness auto
termination
  by (relation "measure id") auto

declare dec.simps [simp del]

definition show_int :: "int \<Rightarrow> string" where
  "show_int i = (if i < 0 then ''-'' @ dec (nat (- i)) else dec (nat i))"

text \<open>
  The counting loop \<open>for (let i = lo; i <= hi; i++) body\<close>, threading the data the body
  mutates.
\<close>

function for_loop :: "int \<Rightarrow> int \<Rightarrow> (int \<Rightarrow> 's \<Rightarrow> 's) \<Rightarrow> 's \<Rightarrow> 's" where
  "for_loop i hi body s = (if i \<le> hi then for_loop (i + 1) hi body (body i s) else s)"
  by pat_completeness auto
termination
  by (relation "measure (\<lambda>(i, hi, body, s). nat (hi + 1 - i))") auto

declare for_loop.simps [simp del]

text \<open>
  \<open>String.prototype.replace\<close> with a string pattern: the first occurrence is replaced.
\<close>

fun replace_first :: "string \<Rightarrow> string \<Rightarrow> string \<Rightarrow> string" where
  "replace_first pat rep [] = (if pat = [] then rep else [])"
| "replace_first pat rep (c # cs) =
     (if startsWith (c # cs) pat then rep @ drop (length pat) (c # cs)
      else c # replace_first pat rep cs)"

section \<open>Dates (the \<open>Date\<close> object and the two date-fns functions used)\<close>

text \<open>
  A \<open>Date\<close> is either the Invalid Date or a point in time. Of a point in time the program
  observes the local calendar fields only (through date-fns), so a valid date is modelled
  by them. \<open>isToday\<close> compares the local calendar day with that of the clock;
  it is false for the Invalid Date. \<open>format\<close> raises \<open>RangeError\<close> on the Invalid Date;
  with the pattern \<open>dd/MM/yyyy\<close> it prints day and month with two digits and the year
  of the era with at least four.
\<close>

record local_time =
  year :: int
  month :: nat
  day :: nat
  hours :: nat
  minutes :: nat

datatype Date = Invalid_Date | Valid_Date local_time

fun isToday :: "local_time \<Rightarrow> Date \<Rightarrow> bool" where
  "isToday now Invalid_Date = False"
| "isToday now (Valid_Date t) = (year t = year now \<and> month t = month now \<and> day t = day now)"

definition addLeadingZeros :: "nat \<Rightarrow> nat \<Rightarrow> string" where
  "addLeadingZeros n targetLength =
     replicate (targetLength - length (dec n)) CHR ''0'' @ dec n"

definition year_of_era :: "int \<Rightarrow> nat" where
  "year_of_era y = (if 0 < y then nat y else nat (1 - y))"

definition ddMMyyyy :: "local_time \<Rightarrow> string" where
  "ddMMyyyy t =
     addLeadingZeros (day t) 2 @ ''/'' @ addLeadingZeros (month t) 2 @ ''/''
       @ addLeadingZeros (year_of_era (year t)) 4"

fun format_ddMMyyyy :: "Date \<Rightarrow> js_error + string" where
  "format_ddMMyyyy Invalid_Date = Inl RangeError"
| "format_ddMMyyyy (Valid_Date t) = Inr (ddMMyyyy t)"

section \<open>Image metadata and the date validator (lib/imageMetadata)\<close>

text \<open>
  A \<open>File\<close> is known to the program through two library calls: \<open>exifr.parse\<close>, which
  raises, yields nothing, or yields the picked EXIF tags; and the image decoder, which fails
  or yields the pixel dimensions. A date tag is identified with the \<open>Date\<close> that
  \<open>new Date(tag)\<close> builds from it (\<open>None\<close>: the tag is missing or falsy).
  The field \<open>make\<close> of the metadata is \<open>camera_make\<close> here.
\<close>

record gps_point =
  latitude :: "real option"
  longitude :: "real option"

record exif_data =
  DateTimeOriginal :: "Date option"
  DateTime :: "Date option"
  CreateDate :: "Date option"
  Make :: "string option"
  Model :: "string option"
  Software :: "string option"
  GPS :: "gps_point option"

datatype exifr_outcome = Parse_throws | Parse_nothing | Parse_data exif_data

record File =
  exifr_parse :: exifr_outcome
  decoded :: "(nat \<times> nat) option"

record ImageMetadata =
  dateTime :: "Date option"
  camera_make :: "string option"
  model :: "string option"
  software :: "string option"
  gps :: "gps_point option"

datatype validation_status = validated | invalid | warning

record ValidationResult =
  isValid :: bool
  reason :: "string option"
  metadata :: "ImageMetadata option"
  suggestion :: "string option"
  status :: "validation_status option"

text \<open>\<open>a || b || c\<close> on date tags.\<close>

definition first_date :: "Date option \<Rightarrow> Date option \<Rightarrow> Date option \<Rightarrow> Date option" where
  "first_date a b c =
     (case a of Some d \<Rightarrow> Some d
      | None \<Rightarrow> (case b of Some d \<Rightarrow> Some d | None \<Rightarrow> c))"

text \<open>The body of the \<open>try\<close> block of \<open>extractImageMetadata\<close>.\<close>

definition extractImageMetadata_try :: "File \<Rightarrow> js_error + ImageMetadata option" where
  "extractImageMetadata_try file =
     (case exifr_parse file of
        Parse_throws \<Rightarrow> Inl (Error ''exifr'')
      | Parse_nothing \<Rightarrow> Inr None
      | Parse_data exifData \<Rightarrow>
          Inr (Some \<lparr> dateTime =
                         first_date (DateTimeOriginal exifData) (DateTime exifData)
                           (CreateDate exifData),
                       camera_make = Make exifData,
                       model = Model exifData,
                       software = Software exifData,
                       gps = (case GPS exifData of
                                None \<Rightarrow> None
                              | Some g \<Rightarrow>
                                  Some \<lparr> latitude = latitude g, longitude = longitude g \<rparr>) \<rparr>))"

definition extractImageMetadata :: "File \<Rightarrow> js_error + ImageMetadata option" where
  "extractImageMetadata file =
     (case extractImageMetadata_try file of
        Inl error \<Rightarrow> Inr None
      | Inr r \<Rightarrow> Inr r)"

definition msg_no_metadata :: string where
  "msg_no_metadata =
     ''N'' @ a_tilde @ ''o foi poss'' @ i_acute @ ''vel verificar os metadados da imagem''"

definition msg_no_date :: string where
  "msg_no_date =
     ''N'' @ a_tilde @ ''o foi poss'' @ i_acute @ ''vel verificar a data da imagem''"

definition msg_use_camera :: string where
  "msg_use_camera = ''Use a c'' @ a_circumflex @ ''mera para tirar uma foto atual''"

definition msg_not_today :: "string \<Rightarrow> string" where
  "msg_not_today photoDateFormatted =
     ''Esta imagem foi tirada em '' @ photoDateFormatted @ '', n'' @ a_tilde
       @ ''o no dia atual''"

definition msg_processing_error :: string where
  "msg_processing_error = ''Erro ao processar a imagem''"

definition msg_retry :: string where
  "msg_retry = ''Tente novamente ou use a c'' @ a_circumflex @ ''mera''"

text \<open>The body of the \<open>try\<close> block of \<open>validateImageDate\<close>; \<open>now\<close> is the clock.\<close>

definition validateImageDate_try :: "local_time \<Rightarrow> File \<Rightarrow> js_error + ValidationResult" where
  "validateImageDate_try now file =
     (case extractImageMetadata file of
        Inl e \<Rightarrow> Inl e
      | Inr None \<Rightarrow>
          Inr \<lparr> isValid = False, reason = Some msg_no_metadata, metadata = None,
                suggestion = Some msg_use_camera, status = Some invalid \<rparr>
      | Inr (Some md) \<Rightarrow>
          (case dateTime md of
             None \<Rightarrow>
               Inr \<lparr> isValid = False, reason = Some msg_no_date, metadata = None,
                     suggestion = Some msg_use_camera, status = Some invalid \<rparr>
           | Some photoDate \<Rightarrow>
               if \<not> isToday now photoDate then
                 (case format_ddMMyyyy photoDate of
                    Inl e \<Rightarrow> Inl e
                  | Inr photoDateFormatted \<Rightarrow>
                      Inr \<lparr> isValid = False,
                            reason = Some (msg_not_today photoDateFormatted),
                            metadata = Some md,
                            suggestion = Some msg_use_camera, status = Some invalid \<rparr>)
               else
                 Inr \<lparr> isValid = True, reason = None, metadata = Some md,
                       suggestion = None, status = Some validated \<rparr>))"

definition validateImageDate :: "local_time \<Rightarrow> File \<Rightarrow> string \<Rightarrow> js_error + ValidationResult" where
  "validateImageDate now file stationId =
     (if stationId = ''reference'' then
        Inr \<lparr> isValid = True, reason = None, metadata = None, suggestion = None,
              status = None \<rparr>
      else if \<not> startsWith stationId ''competitor_'' then
        Inr \<lparr> isValid = True, reason = None, metadata = None, suggestion = None,
              status = None \<rparr>
      else
        (case validateImageDate_try now file of
           Inl error \<Rightarrow>
             Inr \<lparr> isValid = False, reason = Some msg_processing_error, metadata = None,
                   suggestion = Some msg_retry, status = Some invalid \<rparr>
         | Inr r \<Rightarrow> Inr r))"

section \<open>Image compression (lib/imagesDB, compressImage)\<close>

text \<open>
  \<open>compressImage\<close> loads the file into an image element, reads \<open>img.width\<close> and
  \<open>img.height\<close>, and draws the image onto a canvas whose size is computed from them; the
  canvas is what the JPEG encoder is then given. An image that does not decode makes the
  function raise.

  Arithmetic is over the reals. \<open>Math.round\<close> rounds half up, as \<open>round\<close> does.
  The source writes \<open>maxSize / Math.max(img.width, img.height)\<close>; for a 0 by 0 image the
  quotient is \<open>+Infinity\<close> (\<open>NaN\<close> when \<open>maxSize\<close> is 0 too) and the canvas is
  0 by 0 in either case, which is what the branch for \<open>m = 0\<close> yields.
\<close>

record canvas =
  width :: nat
  height :: nat

definition msg_compression_failed :: string where
  "msg_compression_failed = ''Falha na compress'' @ a_tilde @ ''o da imagem''"

definition scale_for :: "nat \<Rightarrow> nat \<Rightarrow> nat \<Rightarrow> real" where
  "scale_for maxSize w h =
     (let m = max w h in if m = 0 then 1 else min 1 (real maxSize / real m))"

definition compressImage :: "File \<Rightarrow> nat \<Rightarrow> js_error + canvas" where
  "compressImage file maxSize =
     (case decoded file of
        None \<Rightarrow> Inl (Error msg_compression_failed)
      | Some (w, h) \<Rightarrow>
          let scale = scale_for maxSize w h
          in Inr \<lparr> width = nat (round (real w * scale)),
                   height = nat (round (real h * scale)) \<rparr>)"

section \<open>The application state (lib/localStorage)\<close>

record PriceFields =
  etanol :: string
  gasolinaComum :: string
  gasolinaAditivada :: string
  dieselS10 :: string

record Prices =
  vista :: PriceFields
  prazo :: PriceFields

record StationMetadata =
  photo_dateTime :: "string option"
  photo_make :: "string option"
  photo_model :: "string option"
  photo_software :: "string option"
  photo_gps :: "gps_point option"
  validationStatus :: "validation_status option"
  validationReason :: "string option"

record StationData =
  photoBase64 :: "string option"
  noChange :: bool
  prices :: Prices
  photo_metadata :: "StationMetadata option"

datatype PeriodKey = manha | tarde

record Config =
  concorrentesCount :: int
  webhookUrl :: "string option"

record Meta =
  lastEdited :: "string option"
  lastSent :: "(PeriodKey \<rightharpoonup> string) option"
  names :: "string \<rightharpoonup> string"

record Period =
  stations :: "string \<rightharpoonup> StationData"

record AppState =
  config :: Config
  meta :: Meta
  periods :: "PeriodKey \<Rightarrow> Period"

text \<open>
  What is found under the storage key. \<open>JSON.parse\<close> either raises or yields a value that
  the program reads as an \<open>AppState\<close> without checking it; every part may be missing.
  \<open>StoredState\<close> is the aggregate with every part optional (\<open>None\<close>: the property is
  missing or \<open>null\<close>). A JSON number, string, boolean or array has none of the properties
  the program reads and so behaves as the value with no part.
\<close>

record StoredConfig =
  stored_count :: "int option"
  stored_webhookUrl :: "string option"

record StoredMeta =
  stored_lastEdited :: "string option"
  stored_lastSent :: "(PeriodKey \<rightharpoonup> string) option"
  stored_names :: "(string \<rightharpoonup> string) option"

record StoredPeriod =
  stored_stations :: "(string \<rightharpoonup> StationData) option"

record StoredState =
  stored_config :: "StoredConfig option"
  stored_meta :: "StoredMeta option"
  stored_periods :: "(PeriodKey \<rightharpoonup> StoredPeriod) option"

datatype persisted =
    No_item
  | Empty_item
  | Not_JSON
  | JSON_null
  | JSON_value StoredState

text \<open>
  The browser state the program reads and writes: the item under the storage key of the
  aggregate, the other items of \<open>localStorage\<close>, the items of \<open>sessionStorage\<close>, and
  the number of \<open>app-state-updated\<close> events dispatched so far.
\<close>

type_synonym storage = "string \<rightharpoonup> string"

record world =
  appItem :: persisted
  localItems :: storage
  sessionItems :: storage
  dispatched :: nat

definition stationIdForIndex :: "int \<Rightarrow> string" where
  "stationIdForIndex index =
     (if index = 0 then ''reference'' else ''competitor_'' @ show_int index)"

definition defaultNameForIndex :: "int \<Rightarrow> string" where
  "defaultNameForIndex index =
     (if index = 0 then ''Posto Natureza: ''
      else ''Posto Concorrente '' @ show_int index @ '': '')"

definition emptyPriceFields :: PriceFields where
  "emptyPriceFields =
     \<lparr> etanol = [], gasolinaComum = [], gasolinaAditivada = [], dieselS10 = [] \<rparr>"

definition emptyStation :: StationData where
  "emptyStation =
     \<lparr> photoBase64 = Some [], noChange = False,
       prices = \<lparr> vista = emptyPriceFields, prazo = emptyPriceFields \<rparr>,
       photo_metadata = None \<rparr>"

text \<open>
  \<open>buildDefaultState\<close>; \<open>now\<close> is the text of \<open>new Date().toISOString()\<close>. The loop
  fills the two objects \<open>names\<close> and \<open>stations\<close> (\<open>add_default_slot\<close> is its body); each
  period gets its own copy of \<open>stations\<close>.
\<close>

definition add_default_slot ::
  "int \<Rightarrow> (string \<rightharpoonup> string) \<times> (string \<rightharpoonup> StationData)
     \<Rightarrow> (string \<rightharpoonup> string) \<times> (string \<rightharpoonup> StationData)" where
  "add_default_slot i =
     (\<lambda>(ns, sts).
        (ns(stationIdForIndex i \<mapsto> defaultNameForIndex i),
         sts(stationIdForIndex i \<mapsto> emptyStation)))"

definition buildDefaultState :: "string \<Rightarrow> int \<Rightarrow> AppState" where
  "buildDefaultState now concorrentes =
     (let (names0, stations0) =
            for_loop 0 concorrentes add_default_slot (Map.empty, Map.empty)
      in \<lparr> config = \<lparr> concorrentesCount = concorrentes, webhookUrl = None \<rparr>,
           meta = \<lparr> lastEdited = Some now, lastSent = None, names = names0 \<rparr>,
           periods = (\<lambda>p. \<lparr> stations = stations0 \<rparr>) \<rparr>)"

text \<open>
  The merge of \<open>readAppState\<close>, for a parsed value that is not \<open>null\<close>. An object spread
  \<open>{...a, ...b}\<close> of two maps is \<open>a ++ b\<close>.
\<close>

definition merge_stored :: "string \<Rightarrow> StoredState \<Rightarrow> AppState" where
  "merge_stored now parsed =
     (let concorrentes =
            (case stored_config parsed of
               None \<Rightarrow> 1
             | Some c \<Rightarrow> (case stored_count c of None \<Rightarrow> 1 | Some n \<Rightarrow> n));
          safe = buildDefaultState now concorrentes;
          safe_meta =
            (case stored_meta parsed of
               None \<Rightarrow> meta safe
             | Some m \<Rightarrow>
                 \<lparr> lastEdited =
                     (case stored_lastEdited m of
                        None \<Rightarrow> lastEdited (meta safe) | Some t \<Rightarrow> Some t),
                   lastSent = stored_lastSent m,
                   names =
                     names (meta safe)
                       ++ (case stored_names m of None \<Rightarrow> Map.empty | Some ns \<Rightarrow> ns) \<rparr>);
          incoming =
            (\<lambda>p. case stored_periods parsed of
                    None \<Rightarrow> Map.empty
                  | Some ps \<Rightarrow>
                      (case ps p of
                         None \<Rightarrow> Map.empty
                       | Some sp \<Rightarrow>
                           (case stored_stations sp of None \<Rightarrow> Map.empty | Some sts \<Rightarrow> sts)))
      in \<lparr> config =
             \<lparr> concorrentesCount = concorrentes,
               webhookUrl =
                 (case stored_config parsed of
                    None \<Rightarrow> None | Some c \<Rightarrow> stored_webhookUrl c) \<rparr>,
           meta = safe_meta,
           periods = (\<lambda>p. \<lparr> stations = stations (periods safe p) ++ incoming p \<rparr>) \<rparr>)"

text \<open>The body of the \<open>try\<close> block of \<open>readAppState\<close>.\<close>

fun readAppState_try :: "string \<Rightarrow> persisted \<Rightarrow> js_error + AppState" where
  "readAppState_try now No_item = Inr (buildDefaultState now 1)"
| "readAppState_try now Empty_item = Inr (buildDefaultState now 1)"
| "readAppState_try now Not_JSON = Inl SyntaxError"
| "readAppState_try now JSON_null = Inl TypeError"
| "readAppState_try now (JSON_value parsed) = Inr (merge_stored now parsed)"

definition readAppState :: "string \<Rightarrow> world \<Rightarrow> AppState" where
  "readAppState now w =
     (case readAppState_try now (appItem w) of
        Inl e \<Rightarrow> buildDefaultState now 1
      | Inr safe \<Rightarrow> safe)"

text \<open>
  \<open>JSON.stringify\<close> followed by \<open>JSON.parse\<close>: what a later read finds after a state
  has been written. Properties whose value is \<open>undefined\<close> are not written.
\<close>

definition to_stored :: "AppState \<Rightarrow> StoredState" where
  "to_stored state =
     \<lparr> stored_config =
         Some \<lparr> stored_count = Some (concorrentesCount (config state)),
                stored_webhookUrl = webhookUrl (config state) \<rparr>,
       stored_meta =
         Some \<lparr> stored_lastEdited = lastEdited (meta state),
                stored_lastSent = lastSent (meta state),
                stored_names = Some (names (meta state)) \<rparr>,
       stored_periods =
         Some (\<lambda>p. Some \<lparr> stored_stations = Some (stations (periods state p)) \<rparr>) \<rparr>"

definition saveAppState :: "string \<Rightarrow> AppState \<Rightarrow> world \<Rightarrow> world" where
  "saveAppState now state w =
     (let next = state \<lparr> meta := (meta state) \<lparr> lastEdited := Some now \<rparr> \<rparr>
      in w \<lparr> appItem := JSON_value (to_stored next), dispatched := dispatched w + 1 \<rparr>)"

text \<open>Assignments to and deletions from the objects inside a state.\<close>

definition set_name :: "string \<Rightarrow> string \<Rightarrow> AppState \<Rightarrow> AppState" where
  "set_name sid v state = state \<lparr> meta := (meta state) \<lparr> names := (names (meta state))(sid \<mapsto> v) \<rparr> \<rparr>"

definition delete_name :: "string \<Rightarrow> AppState \<Rightarrow> AppState" where
  "delete_name sid state =
     state \<lparr> meta := (meta state) \<lparr> names := (names (meta state))(sid := None) \<rparr> \<rparr>"

definition set_station :: "PeriodKey \<Rightarrow> string \<Rightarrow> StationData \<Rightarrow> AppState \<Rightarrow> AppState" where
  "set_station p sid v state =
     state \<lparr> periods :=
       (periods state)(p := \<lparr> stations = (stations (periods state p))(sid \<mapsto> v) \<rparr>) \<rparr>"

definition delete_station :: "PeriodKey \<Rightarrow> string \<Rightarrow> AppState \<Rightarrow> AppState" where
  "delete_station p sid state =
     state \<lparr> periods :=
       (periods state)(p := \<lparr> stations = (stations (periods state p))(sid := None) \<rparr>) \<rparr>"

text \<open>The bodies of the two loops of \<open>setConcorrentesCount\<close>.\<close>

definition ensure_slot :: "int \<Rightarrow> AppState \<Rightarrow> AppState" where
  "ensure_slot i state =
     (let sid = stationIdForIndex i;
          s1 = (if \<not> truthy (names (meta state) sid)
                then set_name sid (defaultNameForIndex i) state else state);
          s2 = (if stations (periods s1 manha) sid = None
                then set_station manha sid emptyStation s1 else s1);
          s3 = (if stations (periods s2 tarde) sid = None
                then set_station tarde sid emptyStation s2 else s2)
      in s3)"

definition remove_slot :: "int \<Rightarrow> AppState \<Rightarrow> AppState" where
  "remove_slot i state =
     (let sid = stationIdForIndex i
      in delete_station tarde sid (delete_station manha sid (delete_name sid state)))"

definition adjust_slots :: "int \<Rightarrow> AppState \<Rightarrow> AppState" where
  "adjust_slots count state =
     (let s1 = for_loop 0 count ensure_slot state;
          s2 = for_loop (count + 1) 20 remove_slot s1
      in s2 \<lparr> config := (config s2) \<lparr> concorrentesCount := count \<rparr> \<rparr>)"

definition setConcorrentesCount :: "string \<Rightarrow> int \<Rightarrow> world \<Rightarrow> AppState \<times> world" where
  "setConcorrentesCount now count w =
     (let state = readAppState now w;
          current = concorrentesCount (config state)
      in if count = current then (state, w)
         else (let state' = adjust_slots count state
               in (state', saveAppState now state' w)))"



section \<open>Webhook resolution (config/webhook, lib/localStorage getWebhookUrl)\<close>

definition INTERNAL_WEBHOOK_URL :: "string option" where
  "INTERNAL_WEBHOOK_URL =
     Some ''https://criadordigital-n8n-webhook.xpr5o6.easypanel.host/webhook/SiteFormulario2''"

definition DEFAULT_WEBHOOK_URL :: string where
  "DEFAULT_WEBHOOK_URL =
     ''https://criadordigital-n8n-editor.xpr5o6.easypanel.host/webhook/SiteFormulario''"

text \<open>
  \<open>import.meta.env\<close>: missing altogether, or an object of strings of which three are read.
\<close>

record Env =
  NEXT_PUBLIC_WEBHOOK_URL :: "string option"
  REACT_APP_WEBHOOK_URL :: "string option"
  VITE_WEBHOOK_URL :: "string option"

text \<open>
  \<open>getWebhookUrl\<close>, with the compiled-in constant as its first argument so that the
  order of precedence can be stated for any value of it.
\<close>

definition getWebhookUrl :: "string option \<Rightarrow> Env option \<Rightarrow> string \<Rightarrow> world \<Rightarrow> string" where
  "getWebhookUrl internal env now w =
     (if truthy internal then the internal
      else
        (let envUrl =
               (case env of
                  None \<Rightarrow> None
                | Some e \<Rightarrow>
                    js_or (js_or (NEXT_PUBLIC_WEBHOOK_URL e) (REACT_APP_WEBHOOK_URL e))
                      (VITE_WEBHOOK_URL e))
         in if truthy envUrl then the envUrl
            else
              (let stored = webhookUrl (config (readAppState now w))
               in if truthy stored then the stored else DEFAULT_WEBHOOK_URL)))"

section \<open>The hybrid blob store (lib/imagesDB)\<close>

text \<open>
  A \<open>Blob\<close> is a media type and a sequence of bytes. \<open>FileReader.readAsDataURL\<close> and
  the \<open>fetch\<close> of a \<open>data:\<close> URL are the browser's Base64 encoder and decoder
  (RFC 4648 with padding; decoding is the forgiving decoding of the WHATWG Infra standard:
  ASCII whitespace is dropped, padding is optional, any other character makes it fail).
  Percent-decoding of the URL body is left out; no string written by \<open>saveImageBlob\<close> for a
  Base64 payload contains a percent sign.
\<close>

type_synonym byte = "8 word"

record Blob =
  blob_type :: string
  blob_bytes :: "byte list"

definition b64_alphabet :: string where
  "b64_alphabet = ''ABCDEFGHIJKLMNOPQRSTUVWXYZabcdefghijklmnopqrstuvwxyz0123456789+/''"

definition b64_char :: "nat \<Rightarrow> char" where
  "b64_char n = b64_alphabet ! n"

fun index_of :: "'a list \<Rightarrow> 'a \<Rightarrow> nat option" where
  "index_of [] c = None"
| "index_of (x # xs) c = (if x = c then Some 0 else map_option Suc (index_of xs c))"

definition b64_value :: "char \<Rightarrow> nat option" where
  "b64_value c = index_of b64_alphabet c"

fun sextets :: "byte list \<Rightarrow> nat list" where
  "sextets (a # b # c # rest) =
     [unat a div 4, (unat a mod 4) * 16 + unat b div 16,
      (unat b mod 16) * 4 + unat c div 64, unat c mod 64] @ sextets rest"
| "sextets [a, b] =
     [unat a div 4, (unat a mod 4) * 16 + unat b div 16, (unat b mod 16) * 4]"
| "sextets [a] = [unat a div 4, (unat a mod 4) * 16]"
| "sextets [] = []"

definition base64_encode :: "byte list \<Rightarrow> string" where
  "base64_encode bs =
     map b64_char (sextets bs) @ replicate ((3 - length bs mod 3) mod 3) CHR ''=''"

fun unsextets :: "nat list \<Rightarrow> byte list" where
  "unsextets (s1 # s2 # s3 # s4 # rest) =
     [of_nat (s1 * 4 + s2 div 16), of_nat ((s2 mod 16) * 16 + s3 div 4),
      of_nat ((s3 mod 4) * 64 + s4)] @ unsextets rest"
| "unsextets [s1, s2, s3] =
     [of_nat (s1 * 4 + s2 div 16), of_nat ((s2 mod 16) * 16 + s3 div 4)]"
| "unsextets [s1, s2] = [of_nat (s1 * 4 + s2 div 16)]"
| "unsextets [s1] = []"
| "unsextets [] = []"

definition is_ascii_whitespace :: "char \<Rightarrow> bool" where
  "is_ascii_whitespace c =
     (c = CHR 0x09 \<or> c = CHR 0x0A \<or> c = CHR 0x0C \<or> c = CHR 0x0D \<or> c = CHR '' '')"

definition strip_padding :: "string \<Rightarrow> string" where
  "strip_padding s =
     (if length s mod 4 = 0 then
        (if 2 \<le> length s \<and> drop (length s - 2) s = ''=='' then take (length s - 2) s
         else if 1 \<le> length s \<and> drop (length s - 1) s = ''='' then take (length s - 1) s
         else s)
      else s)"

definition base64_decode :: "string \<Rightarrow> byte list option" where
  "base64_decode data =
     (let d = strip_padding (filter (\<lambda>c. \<not> is_ascii_whitespace c) data)
      in if length d mod 4 = 1 then None
         else map_option unsextets (those (map b64_value d)))"

definition blobToDataURL :: "Blob \<Rightarrow> string" where
  "blobToDataURL blob =
     ''data:''
       @ (if blob_type blob = [] then ''application/octet-stream'' else blob_type blob)
       @ '';base64,'' @ base64_encode (blob_bytes blob)"

text \<open>
  \<open>dataURLToBase64\<close> removes a match of the regular expression
  \<open>^data:image\/[a-zA-Z+]+;base64,\<close>. The character class does not contain the
  semicolon, so a match takes the longest run of class characters after
  \<open>data:image/\<close>.
\<close>

definition is_mime_letter :: "char \<Rightarrow> bool" where
  "is_mime_letter c =
     (let n = (of_char c :: nat)
      in (65 \<le> n \<and> n \<le> 90) \<or> (97 \<le> n \<and> n \<le> 122) \<or> c = CHR ''+'')"

definition strip_prefix :: "string \<Rightarrow> string \<Rightarrow> string option" where
  "strip_prefix p s = (if startsWith s p then Some (drop (length p) s) else None)"

definition dataURLToBase64 :: "string \<Rightarrow> string" where
  "dataURLToBase64 dataURL =
     (case strip_prefix ''data:image/'' dataURL of
        None \<Rightarrow> dataURL
      | Some r \<Rightarrow>
          (if takeWhile is_mime_letter r = [] then dataURL
           else
             (case strip_prefix '';base64,'' (dropWhile is_mime_letter r) of
                None \<Rightarrow> dataURL
              | Some payload \<Rightarrow> payload)))"

definition imageKey :: "string \<Rightarrow> string \<Rightarrow> string" where
  "imageKey period stationId = ''img:'' @ period @ '':'' @ stationId"

definition metadataKey :: "string \<Rightarrow> string \<Rightarrow> string" where
  "metadataKey period stationId = ''meta:'' @ period @ '':'' @ stationId"

text \<open>
  \<open>setItem\<close> raises when the browser refuses the write (quota exceeded, storage
  disabled). Whether a write is accepted is up to the browser: it is a parameter, a
  predicate on the present contents, the key and the value.
\<close>

type_synonym quota = "storage \<Rightarrow> string \<Rightarrow> string \<Rightarrow> bool"

record quotas =
  local_accepts :: quota
  session_accepts :: quota

definition msg_save_failed :: string where
  "msg_save_failed = ''N'' @ a_tilde @ ''o foi poss'' @ i_acute @ ''vel salvar a imagem''"

text \<open>
  The two writes that \<open>saveImageBlob\<close> attempts on one tier: the payload under the key
  and, when metadata is given, its JSON text under the key with \<open>img:\<close> replaced by
  \<open>meta:\<close>. The result is the contents of the tier afterwards and whether both writes
  went through; a first write that succeeded stays when the second one raises.
\<close>

definition write_entry ::
  "quota \<Rightarrow> storage \<Rightarrow> string \<Rightarrow> string \<Rightarrow> string option \<Rightarrow> storage \<times> bool" where
  "write_entry accepts items key base64 meta_json =
     (if \<not> accepts items key base64 then (items, False)
      else
        (let items1 = items(key \<mapsto> base64)
         in case meta_json of
              None \<Rightarrow> (items1, True)
            | Some json \<Rightarrow>
                (let metaKey = replace_first ''img:'' ''meta:'' key
                 in if \<not> accepts items1 metaKey json then (items1, False)
                    else (items1(metaKey \<mapsto> json), True))))"

text \<open>
  \<open>saveImageBlob\<close>: the error raised, if any, and the browser state afterwards.
  \<open>meta_json\<close> is the JSON text of the metadata object, \<open>None\<close> when none is passed.
\<close>

definition saveImageBlob ::
  "quotas \<Rightarrow> string \<Rightarrow> Blob \<Rightarrow> string option \<Rightarrow> world \<Rightarrow> js_error option \<times> world" where
  "saveImageBlob q key blob meta_json w =
     (let base64 = dataURLToBase64 (blobToDataURL blob);
          (local1, ok1) = write_entry (local_accepts q) (localItems w) key base64 meta_json
      in if ok1 then (None, w \<lparr> localItems := local1 \<rparr>)
         else
           (let (session1, ok2) =
                  write_entry (session_accepts q) (sessionItems w) key base64 meta_json;
                w1 = w \<lparr> localItems := local1, sessionItems := session1 \<rparr>
            in if ok2 then (None, w1) else (Some (Error msg_save_failed), w1)))"

definition getImageBlob :: "string \<Rightarrow> world \<Rightarrow> Blob option" where
  "getImageBlob key w =
     (let base64 = js_or (localItems w key) (sessionItems w key)
      in if \<not> truthy base64 then None
         else
           (case base64_decode (the base64) of
              None \<Rightarrow> None
            | Some bytes \<Rightarrow> Some \<lparr> blob_type = ''image/jpeg'', blob_bytes = bytes \<rparr>))"

section \<open>Submission (components/PriceForm, onSubmit)\<close>

fun period_name :: "PeriodKey \<Rightarrow> string" where
  "period_name manha = ''manha''"
| "period_name tarde = ''tarde''"

definition allIds :: "string list" where
  "allIds = ''reference'' # map (\<lambda>i. ''competitor_'' @ show_int (int i + 1)) [0..<10]"

definition deleteImagesForPeriod :: "PeriodKey \<Rightarrow> world \<Rightarrow> world" where
  "deleteImagesForPeriod period w =
     fold (\<lambda>sid w.
             (let key = imageKey (period_name period) sid;
                  metaKey = replace_first ''img:'' ''meta:'' key
              in w \<lparr> localItems := (localItems w)(key := None, metaKey := None),
                     sessionItems := (sessionItems w)(key := None, metaKey := None) \<rparr>))
       allIds w"

text \<open>
  The two \<open>forEach\<close> loops of \<open>onSubmit\<close> run over the keys of a stations object and
  assign to the entry of the key at hand only, reading nothing that an earlier iteration
  assigned; each is the same update at every key.
\<close>

definition copy_morning_prices :: "AppState \<Rightarrow> AppState" where
  "copy_morning_prices next =
     next \<lparr> periods := (periods next)(tarde :=
       \<lparr> stations =
           (\<lambda>sid.
              case stations (periods next manha) sid of
                None \<Rightarrow> stations (periods next tarde) sid
              | Some morningStation \<Rightarrow>
                  (case stations (periods next tarde) sid of
                     None \<Rightarrow> None
                   | Some afternoonStation \<Rightarrow>
                       Some (afternoonStation
                               \<lparr> prices :=
                                   \<lparr> vista = vista (prices morningStation),
                                     prazo = prazo (prices morningStation) \<rparr>,
                                 noChange := False \<rparr>))) \<rparr>) \<rparr>"

definition clear_photos :: "PeriodKey \<Rightarrow> AppState \<Rightarrow> AppState" where
  "clear_photos period next =
     next \<lparr> periods := (periods next)(period :=
       \<lparr> stations =
           (\<lambda>sid.
              case stations (periods next period) sid of
                None \<Rightarrow> None
              | Some st \<Rightarrow>
                  Some (st \<lparr> photoBase64 := Some [], photo_metadata := None,
                             noChange := False \<rparr>)) \<rparr>) \<rparr>"

datatype fetch_outcome = Fetch_fails | Response nat

definition response_ok :: "nat \<Rightarrow> bool" where
  "response_ok code = (200 \<le> code \<and> code \<le> 299)"

text \<open>
  \<open>onSubmit\<close> from the point where the form has been validated: \<open>validation_ok\<close> is
  the verdict of \<open>validateForm\<close>, \<open>fetched\<close> what the POST came to, and \<open>w\<close> the
  browser state when the response arrives. The result is the state handed to
  \<open>setState\<close>, if any, and the browser state afterwards.
\<close>

definition onSubmit ::
  "Env option \<Rightarrow> PeriodKey \<Rightarrow> string \<Rightarrow> bool \<Rightarrow> fetch_outcome \<Rightarrow> world
     \<Rightarrow> AppState option \<times> world" where
  "onSubmit env period now validation_ok fetched w =
     (let url = getWebhookUrl INTERNAL_WEBHOOK_URL env now w
      in if url = [] then (None, w)
         else if \<not> validation_ok then (None, w)
         else
           (case fetched of
              Fetch_fails \<Rightarrow> (None, w)
            | Response code \<Rightarrow>
                if \<not> response_ok code then (None, w)
                else
                  (let next0 = readAppState now w;
                       sent = (case lastSent (meta next0) of
                                 None \<Rightarrow> Map.empty | Some m \<Rightarrow> m);
                       next1 = next0 \<lparr> meta := (meta next0)
                                 \<lparr> lastSent := Some (sent(period \<mapsto> now)) \<rparr> \<rparr>;
                       next2 = (if period = manha then copy_morning_prices next1
                                else next1);
                       next3 = clear_photos period next2;
                       w1 = deleteImagesForPeriod period w
                   in (Some next3, saveAppState now next3 w1))))"

section \<open>The order of precedence, as the specification words it\<close>

text \<open>
  The specification resolves the webhook URL from a list of candidates, highest first, and
  says that the first non-empty one wins and that the hard-coded endpoint is used when there
  is none. \<open>first_non_empty\<close> is that rule; \<open>env_values\<close> lists the
  environment-supplied candidates in the order in which they are read.
\<close>

fun first_non_empty :: "string option list \<Rightarrow> string \<Rightarrow> string" where
  "first_non_empty [] fallback = fallback"
| "first_non_empty (Some (c # cs) # candidates) fallback = c # cs"
| "first_non_empty (Some [] # candidates) fallback = first_non_empty candidates fallback"
| "first_non_empty (None # candidates) fallback = first_non_empty candidates fallback"

fun env_values :: "Env option \<Rightarrow> string option list" where
  "env_values None = []"
| "env_values (Some e) =
     [NEXT_PUBLIC_WEBHOOK_URL e, REACT_APP_WEBHOOK_URL e, VITE_WEBHOOK_URL e]"

text \<open>
  \<open>in_range lo hi k\<close>: the key \<open>k\<close> is the station id of an index that a loop from
  \<open>lo\<close> to \<open>hi\<close> visits.
\<close>

definition in_range :: "int \<Rightarrow> int \<Rightarrow> string \<Rightarrow> bool" where
  "in_range lo hi k = (\<exists>i. lo \<le> i \<and> i \<le> hi \<and> k = stationIdForIndex i)"

text \<open>
  The competitor count that \<open>readAppState\<close> takes from a parsed value: the stored one,
  or 1 when the value has none.
\<close>

definition stored_count_or_1 :: "StoredState \<Rightarrow> int" where
  "stored_count_or_1 parsed =
     (case stored_config parsed of
        None \<Rightarrow> 1
      | Some c \<Rightarrow> (case stored_count c of None \<Rightarrow> 1 | Some n \<Rightarrow> n))"

text \<open>
  The state that a successful submission of a period builds from the state it reads.
\<close>

definition submitted :: "PeriodKey \<Rightarrow> string \<Rightarrow> AppState \<Rightarrow> AppState" where
  "submitted period now next0 =
     clear_photos period
       ((if period = manha then copy_morning_prices else (\<lambda>s. s))
          (next0 \<lparr> meta := (meta next0)
             \<lparr> lastSent := Some ((case lastSent (meta next0) of
                                      None \<Rightarrow> Map.empty | Some m \<Rightarrow> m)(period \<mapsto> now)) \<rparr> \<rparr>))"

section \<open>Basic facts\<close>

lemma dec_small: "n < 10 \<Longrightarrow> dec n = [digit_char n]"
  by (subst dec.simps) simp

lemma dec_big: "10 \<le> n \<Longrightarrow> dec n = dec (n div 10) @ [digit_char (n mod 10)]"
  by (subst dec.simps) simp

lemma for_loop_step:
  "i \<le> hi \<Longrightarrow> for_loop i hi body s = for_loop (i + 1) hi body (body i s)"
  by (subst for_loop.simps) simp

lemma for_loop_done: "hi < i \<Longrightarrow> for_loop i hi body s = s"
  by (subst for_loop.simps) simp

lemmas eval_text =
  dec_small dec_big digit_char_def show_int_def addLeadingZeros_def year_of_era_def
  ddMMyyyy_def

lemma startsWith_competitor_not_reference:
  "startsWith stationId ''competitor_'' \<Longrightarrow> stationId \<noteq> ''reference''"
  by (auto simp: startsWith_def)

section \<open>The date validator\<close>





lemma validateImageDate_returns: "\<exists>r. validateImageDate now file stationId = Inr r"
  by (simp add: validateImageDate_def split: sum.split)

lemma extract_no_exif:
  "exifr_parse file = Parse_throws \<or> exifr_parse file = Parse_nothing
     \<Longrightarrow> extractImageMetadata file = Inr None"
  by (auto simp: extractImageMetadata_def extractImageMetadata_try_def)

lemma extract_exif:
  "exifr_parse file = Parse_data d \<Longrightarrow>
     \<exists>md. extractImageMetadata file = Inr (Some md)
        \<and> dateTime md = first_date (DateTimeOriginal d) (DateTime d) (CreateDate d)"
  by (simp add: extractImageMetadata_def extractImageMetadata_try_def)

text \<open>
  C3. \<open>validateImageDate\<close> always returns a result and never raises. For a competitor
  station: a failure inside EXIF parsing is swallowed by \<open>extractImageMetadata\<close> and is
  reported like missing metadata (not valid, status \<open>invalid\<close>, the reason that the
  metadata could not be verified, the suggestion to use the camera); metadata without a
  capture time gives the reason that the date could not be verified, with the same
  suggestion; an error raised inside the validator's own \<open>try\<close> block, which happens when
  the capture time is the Invalid Date and \<open>format\<close> raises, gives the generic reason
  \<open>Erro ao processar a imagem\<close> with the suggestion to retry or use the camera.
\<close>

theorem validateImageDate_failures:
  "(\<exists>r. validateImageDate now file stationId = Inr r)
   \<and> (startsWith stationId ''competitor_'' \<longrightarrow>
        (exifr_parse file = Parse_throws \<or> exifr_parse file = Parse_nothing \<longrightarrow>
           validateImageDate now file stationId =
             Inr \<lparr> isValid = False, reason = Some msg_no_metadata, metadata = None,
                   suggestion = Some msg_use_camera, status = Some invalid \<rparr>)
      \<and> (\<forall>d. exifr_parse file = Parse_data d
               \<and> first_date (DateTimeOriginal d) (DateTime d) (CreateDate d) = None \<longrightarrow>
           validateImageDate now file stationId =
             Inr \<lparr> isValid = False, reason = Some msg_no_date, metadata = None,
                   suggestion = Some msg_use_camera, status = Some invalid \<rparr>)
      \<and> (\<forall>d. exifr_parse file = Parse_data d
               \<and> first_date (DateTimeOriginal d) (DateTime d) (CreateDate d)
                   = Some Invalid_Date \<longrightarrow>
           validateImageDate now file stationId =
             Inr \<lparr> isValid = False, reason = Some msg_processing_error, metadata = None,
                   suggestion = Some msg_retry, status = Some invalid \<rparr>))"
proof (intro conjI impI allI)
  show "\<exists>r. validateImageDate now file stationId = Inr r"
    by (rule validateImageDate_returns)
next
  assume c: "startsWith stationId ''competitor_''"
     and "exifr_parse file = Parse_throws \<or> exifr_parse file = Parse_nothing"
  then have "extractImageMetadata file = Inr None" by (simp add: extract_no_exif)
  then show "validateImageDate now file stationId =
             Inr \<lparr> isValid = False, reason = Some msg_no_metadata, metadata = None,
                   suggestion = Some msg_use_camera, status = Some invalid \<rparr>"
    using c startsWith_competitor_not_reference [OF c]
    by (simp add: validateImageDate_def validateImageDate_try_def)
next
  fix d
  assume c: "startsWith stationId ''competitor_''"
     and d: "exifr_parse file = Parse_data d
               \<and> first_date (DateTimeOriginal d) (DateTime d) (CreateDate d) = None"
  obtain md where "extractImageMetadata file = Inr (Some md)" "dateTime md = None"
    using extract_exif [of "file" "d"] d by auto
  then show "validateImageDate now file stationId =
             Inr \<lparr> isValid = False, reason = Some msg_no_date, metadata = None,
                   suggestion = Some msg_use_camera, status = Some invalid \<rparr>"
    using c startsWith_competitor_not_reference [OF c]
    by (simp add: validateImageDate_def validateImageDate_try_def)
next
  fix d
  assume c: "startsWith stationId ''competitor_''"
     and d: "exifr_parse file = Parse_data d
               \<and> first_date (DateTimeOriginal d) (DateTime d) (CreateDate d)
                   = Some Invalid_Date"
  obtain md where "extractImageMetadata file = Inr (Some md)"
      "dateTime md = Some Invalid_Date"
    using extract_exif [of "file" "d"] d by auto
  then show "validateImageDate now file stationId =
             Inr \<lparr> isValid = False, reason = Some msg_processing_error, metadata = None,
                   suggestion = Some msg_retry, status = Some invalid \<rparr>"
    using c startsWith_competitor_not_reference [OF c]
    by (simp add: validateImageDate_def validateImageDate_try_def)
qed

theorem validateImageDate_failures_witness:
  "startsWith ''competitor_2'' ''competitor_''
   \<and> validateImageDate \<lparr> year = 2024, month = 3, day = 5, hours = 0, minutes = 0 \<rparr>
         \<lparr> exifr_parse = Parse_throws, decoded = None \<rparr> ''competitor_2''
       = Inr \<lparr> isValid = False, reason = Some msg_no_metadata, metadata = None,
               suggestion = Some msg_use_camera, status = Some invalid \<rparr>
   \<and> validateImageDate \<lparr> year = 2024, month = 3, day = 5, hours = 0, minutes = 0 \<rparr>
         \<lparr> exifr_parse = Parse_data
             \<lparr> DateTimeOriginal = None, DateTime = None, CreateDate = None,
               Make = Some ''Acme'', Model = None, Software = None, GPS = None \<rparr>,
           decoded = None \<rparr> ''competitor_2''
       = Inr \<lparr> isValid = False, reason = Some msg_no_date, metadata = None,
               suggestion = Some msg_use_camera, status = Some invalid \<rparr>
   \<and> validateImageDate \<lparr> year = 2024, month = 3, day = 5, hours = 0, minutes = 0 \<rparr>
         \<lparr> exifr_parse = Parse_data
             \<lparr> DateTimeOriginal = None, DateTime = Some Invalid_Date, CreateDate = None,
               Make = None, Model = None, Software = None, GPS = None \<rparr>,
           decoded = None \<rparr> ''competitor_2''
       = Inr \<lparr> isValid = False, reason = Some msg_processing_error, metadata = None,
               suggestion = Some msg_retry, status = Some invalid \<rparr>"
  using
    validateImageDate_failures
      [of "\<lparr> year = 2024, month = 3, day = 5, hours = 0, minutes = 0 \<rparr>"
          "\<lparr> exifr_parse = Parse_throws, decoded = None \<rparr>" "''competitor_2''"]
    validateImageDate_failures
      [of "\<lparr> year = 2024, month = 3, day = 5, hours = 0, minutes = 0 \<rparr>"
          "\<lparr> exifr_parse = Parse_data
             \<lparr> DateTimeOriginal = None, DateTime = None, CreateDate = None,
               Make = Some ''Acme'', Model = None, Software = None, GPS = None \<rparr>,
           decoded = None \<rparr>" "''competitor_2''"]
    validateImageDate_failures
      [of "\<lparr> year = 2024, month = 3, day = 5, hours = 0, minutes = 0 \<rparr>"
          "\<lparr> exifr_parse = Parse_data
             \<lparr> DateTimeOriginal = None, DateTime = Some Invalid_Date, CreateDate = None,
               Make = None, Model = None, Software = None, GPS = None \<rparr>,
           decoded = None \<rparr>" "''competitor_2''"]
  by (simp add: startsWith_def first_date_def)

text \<open>
  When EXIF parsing raises for a competitor station, the reason is not the generic one.
\<close>

theorem validateImageDate_failures_counterexample:
  "(case validateImageDate
           \<lparr> year = 2024, month = 3, day = 5, hours = 0, minutes = 0 \<rparr>
           \<lparr> exifr_parse = Parse_throws, decoded = None \<rparr> ''competitor_1''
    of Inl e \<Rightarrow> None | Inr r \<Rightarrow> reason r) \<noteq> Some ''Erro ao processar a imagem''"
  by (simp add: validateImageDate_def validateImageDate_try_def extractImageMetadata_def
        extractImageMetadata_try_def startsWith_def msg_no_metadata_def)

section \<open>Webhook resolution\<close>

lemma first_non_empty_truthy:
  "truthy c \<Longrightarrow> first_non_empty (c # cs) d = the c"
  by (cases c) (auto simp: neq_Nil_conv)

lemma first_non_empty_falsy:
  "\<not> truthy c \<Longrightarrow> first_non_empty (c # cs) d = first_non_empty cs d"
  by (cases c) auto

lemma first_non_empty_none:
  "\<forall>c \<in> set cs. \<not> truthy c \<Longrightarrow> first_non_empty cs d = d"
  by (induction cs) (auto simp: first_non_empty_falsy)

lemma config_buildDefaultState:
  "config (buildDefaultState now c) = \<lparr> concorrentesCount = c, webhookUrl = None \<rparr>"
  by (simp add: buildDefaultState_def split_def Let_def)

text \<open>
  C4. \<open>getWebhookUrl\<close> returns the first non-empty candidate in the order: compiled-in
  override, the three environment variables, the URL stored in the application state; and
  the hard-coded default endpoint when none of them is non-empty.
\<close>

theorem getWebhookUrl_precedence:
  "getWebhookUrl internal env now w =
     first_non_empty
       ([internal] @ env_values env @ [webhookUrl (config (readAppState now w))])
       DEFAULT_WEBHOOK_URL
   \<and> (\<not> truthy internal \<and> (\<forall>e \<in> set (env_values env). \<not> truthy e)
        \<and> \<not> truthy (webhookUrl (config (readAppState now w)))
      \<longrightarrow> getWebhookUrl internal env now w = DEFAULT_WEBHOOK_URL)"
proof -
  have eq: "getWebhookUrl internal env now w =
     first_non_empty
       ([internal] @ env_values env @ [webhookUrl (config (readAppState now w))])
       DEFAULT_WEBHOOK_URL"
  proof (cases "truthy internal")
    case True
    then show ?thesis by (simp add: getWebhookUrl_def first_non_empty_truthy)
  next
    case False
    show ?thesis
    proof (cases env)
      case None
      then show ?thesis using False
        by (cases "truthy (webhookUrl (config (readAppState now w)))")
           (simp_all add: getWebhookUrl_def first_non_empty_truthy first_non_empty_falsy)
    next
      case (Some e)
      then show ?thesis using False
        by (cases "truthy (NEXT_PUBLIC_WEBHOOK_URL e)"; cases "truthy (REACT_APP_WEBHOOK_URL e)";
            cases "truthy (VITE_WEBHOOK_URL e)";
            cases "truthy (webhookUrl (config (readAppState now w)))")
           (simp_all add: getWebhookUrl_def js_or_def first_non_empty_truthy
              first_non_empty_falsy)
    qed
  qed
  have "first_non_empty
       ([internal] @ env_values env @ [webhookUrl (config (readAppState now w))])
       DEFAULT_WEBHOOK_URL = DEFAULT_WEBHOOK_URL"
    if "\<not> truthy internal" "\<forall>e \<in> set (env_values env). \<not> truthy e"
       "\<not> truthy (webhookUrl (config (readAppState now w)))"
    using that by (intro first_non_empty_none) auto
  with eq show ?thesis by simp
qed

theorem getWebhookUrl_precedence_witness:
  "getWebhookUrl None
     (Some \<lparr> NEXT_PUBLIC_WEBHOOK_URL = None, REACT_APP_WEBHOOK_URL = Some [],
             VITE_WEBHOOK_URL = None \<rparr>)
     ''2024-03-05T10:00:00.000Z''
     \<lparr> appItem = No_item, localItems = Map.empty, sessionItems = Map.empty,
       dispatched = 0 \<rparr>
   = ''https://criadordigital-n8n-editor.xpr5o6.easypanel.host/webhook/SiteFormulario''"
  using getWebhookUrl_precedence
    [of None
        "Some \<lparr> NEXT_PUBLIC_WEBHOOK_URL = None, REACT_APP_WEBHOOK_URL = Some [],
                VITE_WEBHOOK_URL = None \<rparr>"
        "''2024-03-05T10:00:00.000Z''"
        "\<lparr> appItem = No_item, localItems = Map.empty, sessionItems = Map.empty,
           dispatched = 0 \<rparr>"]
  by (simp add: readAppState_def config_buildDefaultState DEFAULT_WEBHOOK_URL_def)

section \<open>Station ids and the loops over slots\<close>

lemma dec_nonempty: "dec n \<noteq> []"
  by (subst dec.simps) simp

lemma digit_char_inj:
  assumes "a < 10" "b < 10" "digit_char a = digit_char b"
  shows "a = b"
proof -
  have "distinct ''0123456789''" by simp
  moreover have "a < length ''0123456789''" "b < length ''0123456789''"
    using assms by simp_all
  ultimately show ?thesis
    using assms(3) unfolding digit_char_def by (simp only: nth_eq_iff_index_eq)
qed

lemma dec_inj: "dec n = dec m \<Longrightarrow> n = m"
proof (induction n arbitrary: m rule: dec.induct)
  case (1 n)
  show ?case
  proof (cases "n < 10")
    case small: True
    show ?thesis
    proof (cases "m < 10")
      case True
      have "[digit_char n] = [digit_char m]"
        using "1.prems" dec_small [OF small] dec_small [OF True] by simp
      then have "digit_char n = digit_char m" by simp
      with small True show ?thesis by (rule digit_char_inj)
    next
      case False
      then have "dec m = dec (m div 10) @ [digit_char (m mod 10)]"
        by (simp add: dec_big)
      then have "[digit_char n] = dec (m div 10) @ [digit_char (m mod 10)]"
        using "1.prems" dec_small [OF small] by simp
      then show ?thesis using dec_nonempty [of "m div 10"] by simp
    qed
  next
    case big: False
    then have n: "dec n = dec (n div 10) @ [digit_char (n mod 10)]"
      by (simp add: dec_big)
    show ?thesis
    proof (cases "m < 10")
      case True
      have "dec (n div 10) @ [digit_char (n mod 10)] = [digit_char m]"
        using "1.prems" n dec_small [OF True] by simp
      then show ?thesis using dec_nonempty [of "n div 10"] by simp
    next
      case False
      then have m: "dec m = dec (m div 10) @ [digit_char (m mod 10)]"
        by (simp add: dec_big)
      have "dec (n div 10) @ [digit_char (n mod 10)] = dec (m div 10) @ [digit_char (m mod 10)]"
        using "1.prems" n m by simp
      then have q: "dec (n div 10) = dec (m div 10)"
        and d: "digit_char (n mod 10) = digit_char (m mod 10)"
        by simp_all
      have quot: "n div 10 = m div 10" using "1.IH" [OF big q] .
      have rem: "n mod 10 = m mod 10"
        by (rule digit_char_inj [OF _ _ d]) simp_all
      have "n = n div 10 * 10 + n mod 10" by simp
      also have "\<dots> = m div 10 * 10 + m mod 10" by (simp only: quot rem)
      also have "\<dots> = m" by simp
      finally show ?thesis .
    qed
  qed
qed

lemma show_int_inj:
  assumes "0 \<le> i" "0 \<le> j" "show_int i = show_int j"
  shows "i = j"
proof -
  have "dec (nat i) = dec (nat j)" using assms by (simp add: show_int_def)
  then have "nat i = nat j" by (rule dec_inj)
  then show ?thesis using assms by simp
qed

lemma stationIdForIndex_inj:
  assumes "0 \<le> i" "0 \<le> j" "stationIdForIndex i = stationIdForIndex j"
  shows "i = j"
proof (cases "i = 0")
  case True
  then show ?thesis using assms(3) by (cases "j = 0") (simp_all add: stationIdForIndex_def)
next
  case False
  then have "j \<noteq> 0" using assms(3) by (cases "j = 0") (simp_all add: stationIdForIndex_def)
  with False have "show_int i = show_int j"
    using assms(3) by (simp add: stationIdForIndex_def)
  then show ?thesis using assms(1,2) by (rule show_int_inj [rotated 2])
qed

lemma truthy_defaultName: "truthy (Some (defaultNameForIndex i))"
  by (simp add: defaultNameForIndex_def)

subsection \<open>One iteration\<close>

lemma ensure_slot_stations:
  "stations (periods (ensure_slot i s) p) k =
     (if k = stationIdForIndex i \<and> stations (periods s p) k = None then Some emptyStation
      else stations (periods s p) k)"
  by (cases p) (auto simp: ensure_slot_def Let_def set_station_def set_name_def)

lemma ensure_slot_names:
  "names (meta (ensure_slot i s)) k =
     (if k = stationIdForIndex i \<and> \<not> truthy (names (meta s) k)
      then Some (defaultNameForIndex i) else names (meta s) k)"
  by (auto simp: ensure_slot_def Let_def set_station_def set_name_def)

lemma ensure_slot_config: "config (ensure_slot i s) = config s"
  by (simp add: ensure_slot_def Let_def set_station_def set_name_def)

lemma remove_slot_stations:
  "stations (periods (remove_slot i s) p) k =
     (if k = stationIdForIndex i then None else stations (periods s p) k)"
  by (cases p) (auto simp: remove_slot_def Let_def delete_station_def delete_name_def)

lemma remove_slot_names:
  "names (meta (remove_slot i s)) k =
     (if k = stationIdForIndex i then None else names (meta s) k)"
  by (auto simp: remove_slot_def Let_def delete_station_def delete_name_def)

lemma remove_slot_config: "config (remove_slot i s) = config s"
  by (simp add: remove_slot_def Let_def delete_station_def delete_name_def)

subsection \<open>The loops\<close>

lemma in_range_step:
  "lo \<le> hi \<Longrightarrow> in_range lo hi k \<longleftrightarrow> k = stationIdForIndex lo \<or> in_range (lo + 1) hi k"
proof
  assume le: "lo \<le> hi" and "in_range lo hi k"
  then obtain i where i: "lo \<le> i" "i \<le> hi" "k = stationIdForIndex i"
    by (auto simp: in_range_def)
  show "k = stationIdForIndex lo \<or> in_range (lo + 1) hi k"
  proof (cases "i = lo")
    case True
    with i show ?thesis by simp
  next
    case False
    with i have "lo + 1 \<le> i" by simp
    with i show ?thesis by (auto simp: in_range_def)
  qed
next
  assume le: "lo \<le> hi" and "k = stationIdForIndex lo \<or> in_range (lo + 1) hi k"
  then show "in_range lo hi k"
  proof (elim disjE)
    assume "k = stationIdForIndex lo"
    with le show ?thesis unfolding in_range_def by blast
  next
    assume "in_range (lo + 1) hi k"
    then obtain i where "lo + 1 \<le> i" "i \<le> hi" "k = stationIdForIndex i"
      by (auto simp: in_range_def)
    then have "lo \<le> i \<and> i \<le> hi \<and> k = stationIdForIndex i" by simp
    then show ?thesis unfolding in_range_def by blast
  qed
qed

lemma in_range_empty: "hi < lo \<Longrightarrow> \<not> in_range lo hi k"
  by (auto simp: in_range_def)

lemma ensure_loop_stations:
  "stations (periods (for_loop lo hi ensure_slot s) p) k =
     (if in_range lo hi k \<and> stations (periods s p) k = None then Some emptyStation
      else stations (periods s p) k)"
proof (induction lo hi ensure_slot s rule: for_loop.induct)
  case (1 i hi s)
  show ?case
  proof (cases "i \<le> hi")
    case True
    then show ?thesis
      using "1.hyps" by (simp add: for_loop_step in_range_step ensure_slot_stations)
  next
    case False
    then show ?thesis by (simp add: for_loop_done in_range_empty)
  qed
qed

lemma remove_loop_stations:
  "stations (periods (for_loop lo hi remove_slot s) p) k =
     (if in_range lo hi k then None else stations (periods s p) k)"
proof (induction lo hi remove_slot s rule: for_loop.induct)
  case (1 i hi s)
  show ?case
  proof (cases "i \<le> hi")
    case True
    then show ?thesis
      using "1.hyps" by (simp add: for_loop_step in_range_step remove_slot_stations)
  next
    case False
    then show ?thesis by (simp add: for_loop_done in_range_empty)
  qed
qed

lemma remove_loop_names:
  "names (meta (for_loop lo hi remove_slot s)) k =
     (if in_range lo hi k then None else names (meta s) k)"
proof (induction lo hi remove_slot s rule: for_loop.induct)
  case (1 i hi s)
  show ?case
  proof (cases "i \<le> hi")
    case True
    then show ?thesis
      using "1.hyps" by (simp add: for_loop_step in_range_step remove_slot_names)
  next
    case False
    then show ?thesis by (simp add: for_loop_done in_range_empty)
  qed
qed

lemma ensure_loop_config: "config (for_loop lo hi ensure_slot s) = config s"
proof (induction lo hi ensure_slot s rule: for_loop.induct)
  case (1 i hi s)
  show ?case
  proof (cases "i \<le> hi")
    case True
    then show ?thesis
      using "1.hyps" by (simp add: for_loop_step ensure_slot_config)
  next
    case False
    then show ?thesis by (simp add: for_loop_done)
  qed
qed

lemma remove_loop_config: "config (for_loop lo hi remove_slot s) = config s"
proof (induction lo hi remove_slot s rule: for_loop.induct)
  case (1 i hi s)
  show ?case
  proof (cases "i \<le> hi")
    case True
    then show ?thesis
      using "1.hyps" by (simp add: for_loop_step remove_slot_config)
  next
    case False
    then show ?thesis by (simp add: for_loop_done)
  qed
qed

lemma ensure_loop_names_kept:
  "truthy (names (meta s) k) \<or> \<not> in_range lo hi k
     \<Longrightarrow> names (meta (for_loop lo hi ensure_slot s)) k = names (meta s) k"
proof (induction lo hi ensure_slot s rule: for_loop.induct)
  case (1 i hi s)
  show ?case
  proof (cases "i \<le> hi")
    case True
    have "truthy (names (meta (ensure_slot i s)) k) \<or> \<not> in_range (i + 1) hi k"
      using "1.prems" True by (auto simp: ensure_slot_names in_range_step)
    then have "names (meta (for_loop (i + 1) hi ensure_slot (ensure_slot i s))) k
                 = names (meta (ensure_slot i s)) k"
      using "1.hyps" True by simp
    also have "\<dots> = names (meta s) k"
      using "1.prems" True by (auto simp: ensure_slot_names in_range_step)
    finally show ?thesis using True by (simp add: for_loop_step)
  next
    case False
    then show ?thesis by (simp add: for_loop_done)
  qed
qed

lemma ensure_loop_names_set:
  assumes "0 \<le> lo" "lo \<le> i" "i \<le> hi" "\<not> truthy (names (meta s) (stationIdForIndex i))"
  shows "names (meta (for_loop lo hi ensure_slot s)) (stationIdForIndex i)
           = Some (defaultNameForIndex i)"
  using assms
proof (induction lo hi ensure_slot s rule: for_loop.induct)
  case (1 j hi s)
  have step: "for_loop j hi ensure_slot s = for_loop (j + 1) hi ensure_slot (ensure_slot j s)"
    using "1.prems" by (simp add: for_loop_step)
  show ?case
  proof (cases "j = i")
    case True
    have "names (meta (ensure_slot j s)) (stationIdForIndex i) = Some (defaultNameForIndex i)"
      using True "1.prems" by (simp add: ensure_slot_names)
    then show ?thesis
      using step ensure_loop_names_kept [of "ensure_slot j s" "stationIdForIndex i" "j + 1" hi]
        truthy_defaultName [of i]
      by simp
  next
    case False
    then have ne: "stationIdForIndex i \<noteq> stationIdForIndex j"
      using "1.prems" stationIdForIndex_inj [of i j] by auto
    then have "\<not> truthy (names (meta (ensure_slot j s)) (stationIdForIndex i))"
      using "1.prems" by (simp add: ensure_slot_names)
    then show ?thesis
      using step "1.hyps" "1.prems" False by simp
  qed
qed

lemma not_in_range:
  assumes "0 \<le> i" "0 \<le> lo" "i < lo \<or> hi < i"
  shows "\<not> in_range lo hi (stationIdForIndex i)"
proof
  assume "in_range lo hi (stationIdForIndex i)"
  then obtain j where j: "lo \<le> j" "j \<le> hi" "stationIdForIndex i = stationIdForIndex j"
    by (auto simp: in_range_def)
  then have "i = j" using assms stationIdForIndex_inj [of i j] by simp
  with j assms show False by simp
qed

lemma in_rangeI: "lo \<le> i \<Longrightarrow> i \<le> hi \<Longrightarrow> in_range lo hi (stationIdForIndex i)"
  by (auto simp: in_range_def)

subsection \<open>The default state\<close>

lemma add_default_slot_snd:
  "snd (add_default_slot i st) k =
     (if k = stationIdForIndex i then Some emptyStation else snd st k)"
  by (simp add: add_default_slot_def split_def)

lemma add_default_slot_fst:
  "fst (add_default_slot i st) k =
     (if k = stationIdForIndex i then Some (defaultNameForIndex i) else fst st k)"
  by (simp add: add_default_slot_def split_def)

lemma default_loop_stations:
  "snd (for_loop lo hi add_default_slot st) k =
     (if in_range lo hi k then Some emptyStation else snd st k)"
proof (induction lo hi add_default_slot st rule: for_loop.induct)
  case (1 i hi st)
  show ?case
  proof (cases "i \<le> hi")
    case True
    then show ?thesis
      using "1.hyps"
      by (simp add: for_loop_step in_range_step add_default_slot_snd)
  next
    case False
    then show ?thesis by (simp add: for_loop_done in_range_empty)
  qed
qed

lemma default_loop_names_other:
  "\<not> in_range lo hi k \<Longrightarrow> fst (for_loop lo hi add_default_slot st) k = fst st k"
proof (induction lo hi add_default_slot st rule: for_loop.induct)
  case (1 i hi st)
  show ?case
  proof (cases "i \<le> hi")
    case True
    then show ?thesis
      using "1.hyps" "1.prems"
      by (simp add: for_loop_step in_range_step add_default_slot_fst)
  next
    case False
    then show ?thesis by (simp add: for_loop_done)
  qed
qed


lemma default_loop_names_set:
  assumes "0 \<le> lo" "lo \<le> i" "i \<le> hi"
  shows "fst (for_loop lo hi add_default_slot st) (stationIdForIndex i)
           = Some (defaultNameForIndex i)"
  using assms
proof (induction lo hi add_default_slot st rule: for_loop.induct)
  case (1 j hi st)
  have step: "for_loop j hi add_default_slot st
                = for_loop (j + 1) hi add_default_slot (add_default_slot j st)"
    using "1.prems" by (simp add: for_loop_step)
  show ?case
  proof (cases "j = i")
    case True
    have "\<not> in_range (j + 1) hi (stationIdForIndex i)"
      using True "1.prems" by (intro not_in_range) simp_all
    then show ?thesis
      using step True default_loop_names_other [of "j + 1" hi "stationIdForIndex i"
          "add_default_slot j st"]
      by (simp add: add_default_slot_fst)
  next
    case False
    then show ?thesis
      using step "1.hyps" "1.prems" by simp
  qed
qed

lemma stations_buildDefaultState:
  "stations (periods (buildDefaultState now c) p) k =
     (if in_range 0 c k then Some emptyStation else None)"
  using default_loop_stations [of 0 c "(Map.empty, Map.empty)" k]
  by (simp add: buildDefaultState_def split_def Let_def)

lemma names_buildDefaultState_other:
  "\<not> in_range 0 c k \<Longrightarrow> names (meta (buildDefaultState now c)) k = None"
  using default_loop_names_other [of 0 c k "(Map.empty, Map.empty)"]
  by (simp add: buildDefaultState_def split_def Let_def)


lemma names_buildDefaultState_set:
  "0 \<le> i \<Longrightarrow> i \<le> c \<Longrightarrow>
     names (meta (buildDefaultState now c)) (stationIdForIndex i) = Some (defaultNameForIndex i)"
  using default_loop_names_set [of 0 i c "(Map.empty, Map.empty)"]
  by (simp add: buildDefaultState_def split_def Let_def)


subsection \<open>Visible ids\<close>



subsection \<open>Reading the state\<close>



lemma readAppState_parsed:
  "appItem w = JSON_value parsed \<Longrightarrow> readAppState now w = merge_stored now parsed"
  by (simp add: readAppState_def)

lemma config_merge_stored:
  "concorrentesCount (config (merge_stored now parsed)) = stored_count_or_1 parsed"
  by (simp add: merge_stored_def stored_count_or_1_def Let_def)

lemma stations_merge_stored:
  "stations (periods (merge_stored now parsed) p) =
     stations (periods (buildDefaultState now (stored_count_or_1 parsed)) p)
       ++ (case stored_periods parsed of
             None \<Rightarrow> Map.empty
           | Some ps \<Rightarrow>
               (case ps p of
                  None \<Rightarrow> Map.empty
                | Some sp \<Rightarrow>
                    (case stored_stations sp of None \<Rightarrow> Map.empty | Some sts \<Rightarrow> sts)))"
  by (simp add: merge_stored_def stored_count_or_1_def Let_def)

lemma names_merge_stored:
  "names (meta (merge_stored now parsed)) =
     names (meta (buildDefaultState now (stored_count_or_1 parsed)))
       ++ (case stored_meta parsed of
             None \<Rightarrow> Map.empty
           | Some m \<Rightarrow> (case stored_names m of None \<Rightarrow> Map.empty | Some ns \<Rightarrow> ns))"
  by (simp add: merge_stored_def stored_count_or_1_def Let_def split: option.split)





subsection \<open>Writing the state and reading it back\<close>

lemma readAppState_saveAppState:
  "readAppState t (saveAppState t' s w)
     = merge_stored t (to_stored (s \<lparr> meta := (meta s) \<lparr> lastEdited := Some t' \<rparr> \<rparr>))"
  by (simp add: saveAppState_def Let_def readAppState_parsed)

lemma stored_count_to_stored: "stored_count_or_1 (to_stored s) = concorrentesCount (config s)"
  by (simp add: stored_count_or_1_def to_stored_def)

lemma count_reread:
  "concorrentesCount (config (readAppState t (saveAppState t' s w)))
     = concorrentesCount (config s)"
  by (simp add: readAppState_saveAppState config_merge_stored stored_count_to_stored)

lemma incoming_to_stored:
  "(case stored_periods (to_stored s) of
      None \<Rightarrow> Map.empty
    | Some ps \<Rightarrow>
        (case ps p of
           None \<Rightarrow> Map.empty
         | Some sp \<Rightarrow> (case stored_stations sp of None \<Rightarrow> Map.empty | Some sts \<Rightarrow> sts)))
   = stations (periods s p)"
  by (simp add: to_stored_def)

lemma incoming_names_to_stored:
  "(case stored_meta (to_stored s) of
      None \<Rightarrow> Map.empty
    | Some m \<Rightarrow> (case stored_names m of None \<Rightarrow> Map.empty | Some ns \<Rightarrow> ns))
   = names (meta s)"
  by (simp add: to_stored_def)

lemma stations_reread:
  "stations (periods (readAppState t (saveAppState t' s w)) p) k =
     (case stations (periods s p) k of
        None \<Rightarrow> (if in_range 0 (concorrentesCount (config s)) k then Some emptyStation
                  else None)
      | Some v \<Rightarrow> Some v)"
  by (simp add: readAppState_saveAppState stations_merge_stored stored_count_to_stored
        stations_buildDefaultState incoming_to_stored map_add_def split: option.split)

lemma names_reread:
  "names (meta (readAppState t (saveAppState t' s w))) k =
     (case names (meta s) k of
        None \<Rightarrow> names (meta (buildDefaultState t (concorrentesCount (config s)))) k
      | Some v \<Rightarrow> Some v)"
  by (simp add: readAppState_saveAppState names_merge_stored stored_count_to_stored
        incoming_names_to_stored map_add_def split: option.split)

lemma count_readAppState_clock:
  "concorrentesCount (config (readAppState t w))
     = concorrentesCount (config (readAppState t' w))"
  by (cases "appItem w")
     (simp_all add: readAppState_def config_buildDefaultState config_merge_stored)

subsection \<open>Changing the competitor count\<close>

lemma count_adjust_slots: "concorrentesCount (config (adjust_slots c s)) = c"
  by (simp add: adjust_slots_def Let_def)

lemma stations_adjust_slots:
  "stations (periods (adjust_slots c s) p) k =
     (if in_range (c + 1) 20 k then None
      else if in_range 0 c k \<and> stations (periods s p) k = None then Some emptyStation
      else stations (periods s p) k)"
  by (simp add: adjust_slots_def Let_def remove_loop_stations ensure_loop_stations)

lemma names_adjust_slots_removed:
  "in_range (c + 1) 20 k \<Longrightarrow> names (meta (adjust_slots c s)) k = None"
  by (simp add: adjust_slots_def Let_def remove_loop_names)

lemma names_adjust_slots_added:
  assumes "0 \<le> i" "i \<le> c" "\<not> truthy (names (meta s) (stationIdForIndex i))"
  shows "names (meta (adjust_slots c s)) (stationIdForIndex i) = Some (defaultNameForIndex i)"
proof -
  have "\<not> in_range (c + 1) 20 (stationIdForIndex i)"
    using assms by (intro not_in_range) simp_all
  then show ?thesis
    using assms
    by (simp add: adjust_slots_def Let_def remove_loop_names ensure_loop_names_set)
qed

lemma setConcorrentesCount_changed:
  "c \<noteq> concorrentesCount (config (readAppState t w)) \<Longrightarrow>
     setConcorrentesCount t c w =
       (adjust_slots c (readAppState t w),
        saveAppState t (adjust_slots c (readAppState t w)) w)"
  by (simp add: setConcorrentesCount_def Let_def)

lemma count_after_set:
  "concorrentesCount (config (readAppState t (snd (setConcorrentesCount t' c w)))) = c"
proof (cases "c = concorrentesCount (config (readAppState t' w))")
  case True
  then have "snd (setConcorrentesCount t' c w) = w"
    by (simp add: setConcorrentesCount_def Let_def)
  then show ?thesis
    using True count_readAppState_clock [of t w t'] by simp
next
  case False
  then show ?thesis
    by (simp add: setConcorrentesCount_changed count_reread count_adjust_slots)
qed

lemma regrow_slots:
  fixes wa :: world and ta tb tc td :: string and m n i :: int
  assumes m: "0 \<le> m" "m < n" "n \<le> 20" and i: "m < i" "i \<le> n"
  defines "w1 \<equiv> snd (setConcorrentesCount ta n wa)"
  defines "w2 \<equiv> snd (setConcorrentesCount tb m w1)"
  defines "r3 \<equiv> setConcorrentesCount tc n w2"
  shows "stations (periods (fst r3) p) (stationIdForIndex i) = Some emptyStation"
    and "names (meta (fst r3)) (stationIdForIndex i) = Some (defaultNameForIndex i)"
    and "stations (periods (readAppState td (snd r3)) p) (stationIdForIndex i)
           = Some emptyStation"
    and "names (meta (readAppState td (snd r3))) (stationIdForIndex i)
           = Some (defaultNameForIndex i)"
proof -
  let ?k = "stationIdForIndex i"
  define s1 where "s1 = readAppState tb w1"
  define s2 where "s2 = adjust_slots m s1"
  define x where "x = readAppState tc w2"
  have c1: "concorrentesCount (config s1) = n"
    unfolding s1_def w1_def by (rule count_after_set)
  then have w2: "w2 = saveAppState tb s2 w1"
    using m unfolding w2_def s2_def s1_def by (simp add: setConcorrentesCount_changed)
  have gone: "in_range (m + 1) 20 ?k"
    using m i by (intro in_rangeI) simp_all
  have not_default: "\<not> in_range 0 m ?k"
    using m i by (intro not_in_range) simp_all
  have s2_st: "stations (periods s2 p) ?k = None" for p
    unfolding s2_def using gone by (simp add: stations_adjust_slots)
  have s2_nm: "names (meta s2) ?k = None"
    unfolding s2_def using gone by (rule names_adjust_slots_removed)
  have s2_count: "concorrentesCount (config s2) = m"
    unfolding s2_def by (rule count_adjust_slots)
  have x_count: "concorrentesCount (config x) = m"
    unfolding x_def w2 by (simp add: count_reread s2_count)
  have x_st: "stations (periods x p) ?k = None" for p
    unfolding x_def w2 using not_default by (simp add: stations_reread s2_st s2_count)
  have x_nm: "names (meta x) ?k = None"
    unfolding x_def w2 using not_default
    by (simp add: names_reread s2_nm s2_count names_buildDefaultState_other)
  have r3: "r3 = (adjust_slots n x, saveAppState tc (adjust_slots n x) w2)"
    unfolding r3_def x_def using x_count m
    by (simp add: setConcorrentesCount_changed x_def)
  have stay: "\<not> in_range (n + 1) 20 ?k"
    using m i by (intro not_in_range) simp_all
  have returns: "in_range 0 n ?k"
    using m i by (intro in_rangeI) simp_all
  show st: "stations (periods (fst r3) p) ?k = Some emptyStation"
    unfolding r3 using stay returns by (simp add: stations_adjust_slots x_st)
  show nm: "names (meta (fst r3)) ?k = Some (defaultNameForIndex i)"
    unfolding r3 using m i by (simp add: names_adjust_slots_added x_nm)
  show "stations (periods (readAppState td (snd r3)) p) ?k = Some emptyStation"
    using st unfolding r3 by (simp add: stations_reread)
  show "names (meta (readAppState td (snd r3))) ?k = Some (defaultNameForIndex i)"
    using nm unfolding r3 by (simp add: names_reread)
qed

section \<open>Submission\<close>

lemma getWebhookUrl_internal:
  "getWebhookUrl INTERNAL_WEBHOOK_URL env now w = the INTERNAL_WEBHOOK_URL"
  by (simp add: getWebhookUrl_def INTERNAL_WEBHOOK_URL_def)

lemma getWebhookUrl_internal_nonempty:
  "getWebhookUrl INTERNAL_WEBHOOK_URL env now w \<noteq> []"
  by (simp add: getWebhookUrl_def INTERNAL_WEBHOOK_URL_def)

lemma copy_morning_prices_manha:
  "stations (periods (copy_morning_prices s) manha) = stations (periods s manha)"
  by (simp add: copy_morning_prices_def)

lemma copy_morning_prices_tarde:
  "stations (periods s manha) sid = Some m \<Longrightarrow> stations (periods s tarde) sid = Some a \<Longrightarrow>
     stations (periods (copy_morning_prices s) tarde) sid
       = Some (a \<lparr> prices := prices m, noChange := False \<rparr>)"
  by (simp add: copy_morning_prices_def)

lemma clear_photos_same:
  "stations (periods s p) sid = Some st \<Longrightarrow>
     stations (periods (clear_photos p s) p) sid
       = Some (st \<lparr> photoBase64 := Some [], photo_metadata := None, noChange := False \<rparr>)"
  by (simp add: clear_photos_def)

lemma clear_photos_other:
  "q \<noteq> p \<Longrightarrow> stations (periods (clear_photos p s) q) = stations (periods s q)"
  by (simp add: clear_photos_def)

lemma onSubmit_success:
  assumes "response_ok code"
  shows "onSubmit env period now True (Response code) w =
           (Some (submitted period now (readAppState now w)),
            saveAppState now (submitted period now (readAppState now w))
              (deleteImagesForPeriod period w))"
  using assms
  by (simp add: onSubmit_def Let_def getWebhookUrl_internal_nonempty submitted_def)

text \<open>
  C6. A morning submission that is answered with a 2xx status reads the state
  (\<open>before\<close>), builds a new one (\<open>after\<close>), hands it to \<open>setState\<close> and writes it
  under the storage key. For every station that \<open>before\<close> has in both periods, the
  afternoon record of \<open>after\<close> is the afternoon record of \<open>before\<close> with the morning
  record's prices, both \<open>vista\<close> and \<open>prazo\<close>, put in unchanged (and \<open>noChange\<close>
  false). Every morning record of \<open>after\<close> is the morning record of \<open>before\<close> with
  the photo emptied, the metadata removed and \<open>noChange\<close> false; its prices are kept.
\<close>

theorem onSubmit_morning_copies_prices:
  fixes w :: world and now :: string and env :: "Env option" and code :: nat
  assumes ok: "response_ok code"
  defines "before \<equiv> readAppState now w"
  defines "outcome \<equiv> onSubmit env manha now True (Response code) w"
  shows
    "\<exists>after.
       fst outcome = Some after
       \<and> appItem (snd outcome)
           = JSON_value (to_stored (after \<lparr> meta := (meta after) \<lparr> lastEdited := Some now \<rparr> \<rparr>))
       \<and> (\<forall>sid m a.
             stations (periods before manha) sid = Some m
             \<and> stations (periods before tarde) sid = Some a \<longrightarrow>
             (\<exists>a'. stations (periods after tarde) sid = Some a'
                 \<and> a' = a \<lparr> prices := prices m, noChange := False \<rparr>
                 \<and> vista (prices a') = vista (prices m)
                 \<and> prazo (prices a') = prazo (prices m)))
       \<and> (\<forall>sid m.
             stations (periods before manha) sid = Some m \<longrightarrow>
             stations (periods after manha) sid
               = Some (m \<lparr> photoBase64 := Some [], photo_metadata := None,
                          noChange := False \<rparr>))"
proof -
  define mid where
    "mid = copy_morning_prices
       (before \<lparr> meta := (meta before)
          \<lparr> lastSent := Some ((case lastSent (meta before) of
                                   None \<Rightarrow> Map.empty | Some m \<Rightarrow> m)(manha \<mapsto> now)) \<rparr> \<rparr>)"
  define after where "after = clear_photos manha mid"
  have after: "submitted manha now before = after"
    by (simp add: submitted_def after_def mid_def)
  have "onSubmit env manha now True (Response code) w =
           (Some (submitted manha now before),
            saveAppState now (submitted manha now before) (deleteImagesForPeriod manha w))"
    unfolding before_def by (rule onSubmit_success [OF ok])
  then have out: "outcome = (Some after, saveAppState now after (deleteImagesForPeriod manha w))"
    unfolding outcome_def after .
  have mid_manha: "stations (periods mid manha) = stations (periods before manha)"
    by (simp add: mid_def copy_morning_prices_manha)
  have tarde: "\<exists>a'. stations (periods after tarde) sid = Some a'
                 \<and> a' = a \<lparr> prices := prices m, noChange := False \<rparr>
                 \<and> vista (prices a') = vista (prices m)
                 \<and> prazo (prices a') = prazo (prices m)"
    if "stations (periods before manha) sid = Some m"
       "stations (periods before tarde) sid = Some a" for sid m a
  proof -
    have "stations (periods mid tarde) sid = Some (a \<lparr> prices := prices m, noChange := False \<rparr>)"
      unfolding mid_def using that by (intro copy_morning_prices_tarde) simp_all
    then have "stations (periods after tarde) sid
                 = Some (a \<lparr> prices := prices m, noChange := False \<rparr>)"
      by (simp add: after_def clear_photos_other)
    then show ?thesis by simp
  qed
  have manha: "stations (periods after manha) sid
               = Some (m \<lparr> photoBase64 := Some [], photo_metadata := None, noChange := False \<rparr>)"
    if "stations (periods before manha) sid = Some m" for sid m
    unfolding after_def using that by (intro clear_photos_same) (simp add: mid_manha)
  have saved: "appItem (snd outcome)
           = JSON_value (to_stored (after \<lparr> meta := (meta after) \<lparr> lastEdited := Some now \<rparr> \<rparr>))"
    by (simp add: out saveAppState_def Let_def)
  show ?thesis
    using out saved tarde manha by (intro exI [of _ after]) auto
qed


theorem onSubmit_morning_copies_prices_witness:
  "response_ok 200
   \<and> (\<exists>after.
         fst (onSubmit None manha ''2024-03-05T10:00:00.000Z'' True (Response 200)
                \<lparr> appItem = JSON_value
                    \<lparr> stored_config = None, stored_meta = None,
                      stored_periods = Some
                        [manha \<mapsto> \<lparr> stored_stations = Some
                            [''reference'' \<mapsto>
                               \<lparr> photoBase64 = Some ''QUJD'', noChange = True,
                                 prices = \<lparr> vista = \<lparr> etanol = ''3,99'',
                                     gasolinaComum = ''5,79'', gasolinaAditivada = ''5,99'',
                                     dieselS10 = ''Sem dados'' \<rparr>,
                                   prazo = emptyPriceFields \<rparr>,
                                 photo_metadata = None \<rparr>] \<rparr>] \<rparr>,
                  localItems = Map.empty, sessionItems = Map.empty, dispatched = 0 \<rparr>)
           = Some after
         \<and> stations (periods after tarde) ''reference''
             = Some \<lparr> photoBase64 = Some [], noChange = False,
                      prices = \<lparr> vista = \<lparr> etanol = ''3,99'',
                          gasolinaComum = ''5,79'', gasolinaAditivada = ''5,99'',
                          dieselS10 = ''Sem dados'' \<rparr>,
                        prazo = emptyPriceFields \<rparr>,
                      photo_metadata = None \<rparr>
         \<and> stations (periods after manha) ''reference''
             = Some \<lparr> photoBase64 = Some [], noChange = False,
                      prices = \<lparr> vista = \<lparr> etanol = ''3,99'',
                          gasolinaComum = ''5,79'', gasolinaAditivada = ''5,99'',
                          dieselS10 = ''Sem dados'' \<rparr>,
                        prazo = emptyPriceFields \<rparr>,
                      photo_metadata = None \<rparr>)"
proof -
  let ?t = "''2024-03-05T10:00:00.000Z''"
  let ?m = "\<lparr> photoBase64 = Some ''QUJD'', noChange = True,
              prices = \<lparr> vista = \<lparr> etanol = ''3,99'',
                  gasolinaComum = ''5,79'', gasolinaAditivada = ''5,99'',
                  dieselS10 = ''Sem dados'' \<rparr>,
                prazo = emptyPriceFields \<rparr>,
              photo_metadata = None \<rparr>"
  let ?w = "\<lparr> appItem = JSON_value
                    \<lparr> stored_config = None, stored_meta = None,
                      stored_periods = Some
                        [manha \<mapsto> \<lparr> stored_stations = Some [''reference'' \<mapsto> ?m] \<rparr>] \<rparr>,
              localItems = Map.empty, sessionItems = Map.empty, dispatched = 0 \<rparr>"
  have ok: "response_ok 200" by (simp add: response_ok_def)
  have in_default: "in_range 0 1 ''reference''"
    using in_rangeI [of 0 0 1] by (simp add: stationIdForIndex_def)
  have morning: "stations (periods (readAppState ?t ?w) manha) ''reference'' = Some ?m"
    by (simp add: readAppState_parsed stations_merge_stored map_add_def)
  have afternoon: "stations (periods (readAppState ?t ?w) tarde) ''reference''
                     = Some emptyStation"
    using in_default
    by (simp add: readAppState_parsed stations_merge_stored map_add_def
          stations_buildDefaultState stored_count_or_1_def)
  from onSubmit_morning_copies_prices [OF ok, of None ?t ?w]
  obtain after where
      fst: "fst (onSubmit None manha ?t True (Response 200) ?w) = Some after"
    and copy: "\<forall>sid m a.
             stations (periods (readAppState ?t ?w) manha) sid = Some m
             \<and> stations (periods (readAppState ?t ?w) tarde) sid = Some a \<longrightarrow>
             (\<exists>a'. stations (periods after tarde) sid = Some a'
                 \<and> a' = a \<lparr> prices := prices m, noChange := False \<rparr>
                 \<and> vista (prices a') = vista (prices m)
                 \<and> prazo (prices a') = prazo (prices m))"
    and clear: "\<forall>sid m.
             stations (periods (readAppState ?t ?w) manha) sid = Some m \<longrightarrow>
             stations (periods after manha) sid
               = Some (m \<lparr> photoBase64 := Some [], photo_metadata := None,
                          noChange := False \<rparr>)"
    by blast
  have "stations (periods after tarde) ''reference''
          = Some (emptyStation \<lparr> prices := prices ?m, noChange := False \<rparr>)"
    using copy morning afternoon by blast
  moreover have "stations (periods after manha) ''reference''
          = Some (?m \<lparr> photoBase64 := Some [], photo_metadata := None, noChange := False \<rparr>)"
    using clear morning by blast
  ultimately show ?thesis
    using ok fst by (simp add: emptyStation_def)
qed

section \<open>The compressor\<close>

lemma scale_for_small: "max w h \<le> maxSize \<Longrightarrow> scale_for maxSize w h = 1"
  by (auto simp: scale_for_def Let_def min_def)

lemma scale_for_large:
  "maxSize < max w h \<Longrightarrow> scale_for maxSize w h = real maxSize / real (max w h)"
  by (auto simp: scale_for_def Let_def min_def)

lemma round_scaled_le:
  assumes "a \<le> m" "0 < m"
  shows "nat (round (real a * (real k / real m))) \<le> k"
proof -
  have "real a * (real k / real m) \<le> real k"
  proof -
    have "real a * (real k / real m) = real k * (real a / real m)" by simp
    also have "\<dots> \<le> real k * 1"
      using assms by (intro mult_left_mono) (simp_all add: divide_le_eq)
    finally show ?thesis by simp
  qed
  then have "round (real a * (real k / real m)) \<le> round (real k)"
    by (rule round_mono)
  then show ?thesis by simp
qed

lemma round_close: "\<bar>real_of_int (round x) - x\<bar> \<le> 1 / 2"
  using of_int_round_abs_le [of x] by simp

lemma nat_round_nonneg:
  fixes x :: real
  assumes "0 \<le> x"
  shows "real (nat (round x)) = real_of_int (round x)"
proof -
  from assms have "round (0::real) \<le> round x" by (rule round_mono)
  then show ?thesis by simp
qed

text \<open>
  C8. An image whose longer side is at most the bound keeps its dimensions exactly. For a
  larger image neither side of the output exceeds the bound, and both sides are the input
  sides multiplied by the one factor \<open>maxSize / max w h\<close>, each rounded to the nearest
  integer (the aspect ratio is kept up to that rounding). The bound is any \<open>maxSize\<close>;
  the program passes 600.
\<close>

theorem compressImage_dimensions:
  assumes "decoded file = Some (w, h)"
  shows "(max w h \<le> maxSize \<longrightarrow>
            compressImage file maxSize = Inr \<lparr> width = w, height = h \<rparr>)
       \<and> (maxSize < max w h \<longrightarrow>
            (\<exists>c. compressImage file maxSize = Inr c
               \<and> width c \<le> maxSize \<and> height c \<le> maxSize
               \<and> \<bar>real (width c) - real w * (real maxSize / real (max w h))\<bar> \<le> 1 / 2
               \<and> \<bar>real (height c) - real h * (real maxSize / real (max w h))\<bar> \<le> 1 / 2))"
proof (intro conjI impI)
  assume "max w h \<le> maxSize"
  then show "compressImage file maxSize = Inr \<lparr> width = w, height = h \<rparr>"
    using assms by (simp add: compressImage_def scale_for_small)
next
  assume big: "maxSize < max w h"
  let ?s = "real maxSize / real (max w h)"
  let ?c = "\<lparr> width = nat (round (real w * ?s)), height = nat (round (real h * ?s)) \<rparr>"
  have pos: "0 < max w h" using big by simp
  have eq: "compressImage file maxSize = Inr ?c"
    using assms big by (simp add: compressImage_def scale_for_large Let_def)
  have w_le: "width ?c \<le> maxSize"
    using round_scaled_le [of w "max w h" maxSize] pos by simp
  have h_le: "height ?c \<le> maxSize"
    using round_scaled_le [of h "max w h" maxSize] pos by simp
  have w_near: "\<bar>real (width ?c) - real w * ?s\<bar> \<le> 1 / 2"
    using round_close [of "real w * ?s"] by (simp add: nat_round_nonneg)
  have h_near: "\<bar>real (height ?c) - real h * ?s\<bar> \<le> 1 / 2"
    using round_close [of "real h * ?s"] by (simp add: nat_round_nonneg)
  show "\<exists>c. compressImage file maxSize = Inr c
               \<and> width c \<le> maxSize \<and> height c \<le> maxSize
               \<and> \<bar>real (width c) - real w * ?s\<bar> \<le> 1 / 2
               \<and> \<bar>real (height c) - real h * ?s\<bar> \<le> 1 / 2"
    using eq w_le h_le w_near h_near by blast
qed

theorem compressImage_dimensions_witness:
  "compressImage \<lparr> exifr_parse = Parse_nothing, decoded = Some (480, 600) \<rparr> 600
     = Inr \<lparr> width = 480, height = 600 \<rparr>
   \<and> (\<exists>c. compressImage \<lparr> exifr_parse = Parse_nothing, decoded = Some (4000, 3000) \<rparr> 600
            = Inr c
        \<and> width c \<le> 600 \<and> height c \<le> 600
        \<and> \<bar>real (width c) - 4000 * (600 / 4000)\<bar> \<le> 1 / 2
        \<and> \<bar>real (height c) - 3000 * (600 / 4000)\<bar> \<le> 1 / 2)"
  using
    compressImage_dimensions
      [of "\<lparr> exifr_parse = Parse_nothing, decoded = Some (480, 600) \<rparr>" 480 600 600]
    compressImage_dimensions
      [of "\<lparr> exifr_parse = Parse_nothing, decoded = Some (4000, 3000) \<rparr>" 4000 3000 600]
  by simp

text \<open>
  C9. From any browser state, \<open>setConcorrentesCount 5\<close>, then \<open>setConcorrentesCount 2\<close>,
  then \<open>setConcorrentesCount 5\<close> end in a state whose slots \<open>competitor_3\<close>,
  \<open>competitor_4\<close> and \<open>competitor_5\<close> hold, in either period \<open>p\<close>, the empty station
  record (blank prices, empty photo, no metadata, \<open>noChange\<close> false) and carry their
  default names. This holds of the state the last call returns and of the state read back
  from storage afterwards. The clock values of the calls are arbitrary.
\<close>

theorem setConcorrentesCount_5_2_5:
  fixes w0 :: world and t1 t2 t3 t4 :: string
  defines "r \<equiv> setConcorrentesCount t3 5
                   (snd (setConcorrentesCount t2 2 (snd (setConcorrentesCount t1 5 w0))))"
  defines "blank \<equiv> \<lparr> photoBase64 = Some [], noChange = False,
                     prices = \<lparr> vista = \<lparr> etanol = [], gasolinaComum = [],
                                            gasolinaAditivada = [], dieselS10 = [] \<rparr>,
                                 prazo = \<lparr> etanol = [], gasolinaComum = [],
                                            gasolinaAditivada = [], dieselS10 = [] \<rparr> \<rparr>,
                     photo_metadata = None \<rparr>"
  shows "stations (periods (fst r) p) ''competitor_3'' = Some blank
       \<and> stations (periods (fst r) p) ''competitor_4'' = Some blank
       \<and> stations (periods (fst r) p) ''competitor_5'' = Some blank
       \<and> names (meta (fst r)) ''competitor_3'' = Some ''Posto Concorrente 3: ''
       \<and> names (meta (fst r)) ''competitor_4'' = Some ''Posto Concorrente 4: ''
       \<and> names (meta (fst r)) ''competitor_5'' = Some ''Posto Concorrente 5: ''
       \<and> stations (periods (readAppState t4 (snd r)) p) ''competitor_3'' = Some blank
       \<and> stations (periods (readAppState t4 (snd r)) p) ''competitor_4'' = Some blank
       \<and> stations (periods (readAppState t4 (snd r)) p) ''competitor_5'' = Some blank
       \<and> names (meta (readAppState t4 (snd r))) ''competitor_3''
             = Some ''Posto Concorrente 3: ''
       \<and> names (meta (readAppState t4 (snd r))) ''competitor_4''
             = Some ''Posto Concorrente 4: ''
       \<and> names (meta (readAppState t4 (snd r))) ''competitor_5''
             = Some ''Posto Concorrente 5: ''"
proof -
  have id3: "''competitor_3'' = stationIdForIndex 3"
    and id4: "''competitor_4'' = stationIdForIndex 4"
    and id5: "''competitor_5'' = stationIdForIndex 5"
    by (simp_all add: stationIdForIndex_def eval_text)
  have n3: "''Posto Concorrente 3: '' = defaultNameForIndex 3"
    and n4: "''Posto Concorrente 4: '' = defaultNameForIndex 4"
    and n5: "''Posto Concorrente 5: '' = defaultNameForIndex 5"
    by (simp_all add: defaultNameForIndex_def eval_text)
  have blank: "blank = emptyStation"
    by (simp add: blank_def emptyStation_def emptyPriceFields_def)
  have a3: "stations (periods (fst r) p) ''competitor_3'' = Some blank"
    unfolding r_def id3 blank by (rule regrow_slots(1)) simp_all
  have a4: "stations (periods (fst r) p) ''competitor_4'' = Some blank"
    unfolding r_def id4 blank by (rule regrow_slots(1)) simp_all
  have a5: "stations (periods (fst r) p) ''competitor_5'' = Some blank"
    unfolding r_def id5 blank by (rule regrow_slots(1)) simp_all
  have b3: "names (meta (fst r)) ''competitor_3'' = Some ''Posto Concorrente 3: ''"
    unfolding r_def id3 n3 by (rule regrow_slots(2)) simp_all
  have b4: "names (meta (fst r)) ''competitor_4'' = Some ''Posto Concorrente 4: ''"
    unfolding r_def id4 n4 by (rule regrow_slots(2)) simp_all
  have b5: "names (meta (fst r)) ''competitor_5'' = Some ''Posto Concorrente 5: ''"
    unfolding r_def id5 n5 by (rule regrow_slots(2)) simp_all
  have c3: "stations (periods (readAppState t4 (snd r)) p) ''competitor_3'' = Some blank"
    unfolding r_def id3 blank by (rule regrow_slots(3)) simp_all
  have c4: "stations (periods (readAppState t4 (snd r)) p) ''competitor_4'' = Some blank"
    unfolding r_def id4 blank by (rule regrow_slots(3)) simp_all
  have c5: "stations (periods (readAppState t4 (snd r)) p) ''competitor_5'' = Some blank"
    unfolding r_def id5 blank by (rule regrow_slots(3)) simp_all
  have d3: "names (meta (readAppState t4 (snd r))) ''competitor_3''
              = Some ''Posto Concorrente 3: ''"
    unfolding r_def id3 n3 by (rule regrow_slots(4)) simp_all
  have d4: "names (meta (readAppState t4 (snd r))) ''competitor_4''
              = Some ''Posto Concorrente 4: ''"
    unfolding r_def id4 n4 by (rule regrow_slots(4)) simp_all
  have d5: "names (meta (readAppState t4 (snd r))) ''competitor_5''
              = Some ''Posto Concorrente 5: ''"
    unfolding r_def id5 n5 by (rule regrow_slots(4)) simp_all
  from a3 a4 a5 b3 b4 b5 c3 c4 c5 d3 d4 d5 show ?thesis by blast
qed

text \<open>
  C10. When the count passed to \<open>setConcorrentesCount\<close> equals the competitor count of
  the state it reads, the call returns that state and leaves the browser state as it was:
  nothing is written under the storage key (so \<open>lastEdited\<close> is not stamped again), no
  record or name is changed, and no \<open>app-state-updated\<close> event is dispatched.
\<close>

theorem setConcorrentesCount_same_count:
  assumes "count = concorrentesCount (config (readAppState now w))"
  shows "setConcorrentesCount now count w = (readAppState now w, w)"
  using assms by (simp add: setConcorrentesCount_def Let_def)


theorem setConcorrentesCount_same_count_witness:
  "setConcorrentesCount ''2024-03-05T10:00:00.000Z'' 3
     \<lparr> appItem = JSON_value
         \<lparr> stored_config = Some \<lparr> stored_count = Some 3, stored_webhookUrl = None \<rparr>,
           stored_meta = None, stored_periods = None \<rparr>,
       localItems = Map.empty, sessionItems = Map.empty, dispatched = 7 \<rparr>
   = (readAppState ''2024-03-05T10:00:00.000Z''
        \<lparr> appItem = JSON_value
            \<lparr> stored_config = Some \<lparr> stored_count = Some 3, stored_webhookUrl = None \<rparr>,
              stored_meta = None, stored_periods = None \<rparr>,
          localItems = Map.empty, sessionItems = Map.empty, dispatched = 7 \<rparr>,
      \<lparr> appItem = JSON_value
          \<lparr> stored_config = Some \<lparr> stored_count = Some 3, stored_webhookUrl = None \<rparr>,
            stored_meta = None, stored_periods = None \<rparr>,
        localItems = Map.empty, sessionItems = Map.empty, dispatched = 7 \<rparr>)"
  using setConcorrentesCount_same_count
    [of 3 "''2024-03-05T10:00:00.000Z''"
        "\<lparr> appItem = JSON_value
            \<lparr> stored_config = Some \<lparr> stored_count = Some 3, stored_webhookUrl = None \<rparr>,
              stored_meta = None, stored_periods = None \<rparr>,
          localItems = Map.empty, sessionItems = Map.empty, dispatched = 7 \<rparr>"]
  by (simp add: readAppState_parsed config_merge_stored stored_count_or_1_def)

end
